theory Spec2Isabelle
  imports Main "HOL-Library.Sublist" "HOL-Library.Word"
begin

section \<open>JavaScript values\<close>

text \<open>
  Webhook payloads and the bodies of HTTP responses are the results of \<^verbatim>\<open>JSON.parse\<close>, and
  the workers read them as \<^verbatim>\<open>any\<close>. They are modelled as a datatype of JSON values with
  \<^verbatim>\<open>undefined\<close> added, which is what reading a missing property gives. Numbers are the
  integers (the identifiers and counters the workers read); an object is the list of its
  fields, looked up by name.
\<close>

datatype jsval =
    JUndefined
  | JNull
  | JBool bool
  | JNum int
  | JStr string
  | JArr "jsval list"
  | JObj "(string \<times> jsval) list"

text \<open>What JavaScript can throw here: a \<^verbatim>\<open>TypeError\<close> of the language, a plain
  \<^verbatim>\<open>Error\<close>, the reviewer's own \<^verbatim>\<open>RetryableWorkerError\<close>, and an error raised by a
  host service (key-value store, queue, network), which may carry an \<^verbatim>\<open>isRetryable\<close> flag.\<close>

datatype js_error =
    TypeError string
  | Error string
  | RetryableWorkerError string
  | HostError bool string

fun message :: "js_error \<Rightarrow> string" where
  "message (TypeError m) = m"
| "message (Error m) = m"
| "message (RetryableWorkerError m) = m"
| "message (HostError r m) = m"

text \<open>\<^verbatim>\<open>if (x)\<close>, \<^verbatim>\<open>x && y\<close>, \<^verbatim>\<open>x || y\<close>, \<^verbatim>\<open>!x\<close> test truthiness.\<close>

fun truthy :: "jsval \<Rightarrow> bool" where
  "truthy JUndefined = False"
| "truthy JNull = False"
| "truthy (JBool b) = b"
| "truthy (JNum n) = (n \<noteq> 0)"
| "truthy (JStr s) = (s \<noteq> [])"
| "truthy (JArr xs) = True"
| "truthy (JObj kvs) = True"

fun nullish :: "jsval \<Rightarrow> bool" where
  "nullish JUndefined = True"
| "nullish JNull = True"
| "nullish v = False"

text \<open>\<^verbatim>\<open>x.k\<close> for a field name \<open>k\<close> that is not a built-in property (none of the names the
  workers read is one): a \<^verbatim>\<open>TypeError\<close> on \<^verbatim>\<open>undefined\<close> and \<^verbatim>\<open>null\<close>, the field of an
  object, \<^verbatim>\<open>undefined\<close> on everything else.\<close>

fun field :: "jsval \<Rightarrow> string \<Rightarrow> jsval" where
  "field (JObj kvs) k = (case map_of kvs k of Some v \<Rightarrow> v | None \<Rightarrow> JUndefined)"
| "field v k = JUndefined"

definition get_prop :: "jsval \<Rightarrow> string \<Rightarrow> js_error + jsval" where
  "get_prop v k =
     (if nullish v then Inl (TypeError (''Cannot read properties of undefined or null (reading '' @ k @ '')''))
      else Inr (field v k))"

text \<open>Expressions that may throw are values of \<open>js_error + 'a\<close>; \<open>dot e k\<close> is \<^verbatim>\<open>e.k\<close>,
  \<open>qdot e k\<close> is \<^verbatim>\<open>e?.k\<close>, \<open>js_and\<close> is \<^verbatim>\<open>&&\<close> and \<open>js_or\<close> is \<^verbatim>\<open>||\<close>, both
  evaluating their right operand only when needed.\<close>

definition js_bind :: "js_error + 'a \<Rightarrow> ('a \<Rightarrow> js_error + 'b) \<Rightarrow> js_error + 'b" where
  "js_bind m f = (case m of Inl e \<Rightarrow> Inl e | Inr v \<Rightarrow> f v)"

definition dot :: "js_error + jsval \<Rightarrow> string \<Rightarrow> js_error + jsval" where
  "dot e k = js_bind e (\<lambda>v. get_prop v k)"

definition qdot :: "js_error + jsval \<Rightarrow> string \<Rightarrow> js_error + jsval" where
  "qdot e k = js_bind e (\<lambda>v. if nullish v then Inr JUndefined else get_prop v k)"

definition js_and :: "js_error + jsval \<Rightarrow> js_error + jsval \<Rightarrow> js_error + jsval" where
  "js_and a b = js_bind a (\<lambda>x. if truthy x then b else Inr x)"

definition js_or :: "js_error + jsval \<Rightarrow> js_error + jsval \<Rightarrow> js_error + jsval" where
  "js_or a b = js_bind a (\<lambda>x. if truthy x then Inr x else b)"

text \<open>Decimal rendering of numbers.\<close>

definition digit_char :: "nat \<Rightarrow> char" where
  "digit_char d = ''0123456789'' ! d"

fun show_nat :: "nat \<Rightarrow> string" where
  "show_nat n = (if n < 10 then [digit_char n] else show_nat (n div 10) @ [digit_char (n mod 10)])"

declare show_nat.simps [simp del]

definition show_int :: "int \<Rightarrow> string" where
  "show_int i = (if i < 0 then CHR ''-'' # show_nat (nat (- i)) else show_nat (nat i))"

text \<open>\<^verbatim>\<open>Array.prototype.join\<close> on strings.\<close>

fun join :: "string \<Rightarrow> string list \<Rightarrow> string" where
  "join sep [] = []"
| "join sep [x] = x"
| "join sep (x # y # ys) = x @ sep @ join sep (y # ys)"

text \<open>String conversion, as a template literal \<^verbatim>\<open>`${x}`\<close> does it: an array is its elements
  joined by commas with \<^verbatim>\<open>null\<close> and \<^verbatim>\<open>undefined\<close> elements empty, an object is
  \<^verbatim>\<open>[object Object]\<close>.\<close>

fun to_str :: "jsval \<Rightarrow> string" where
  "to_str JUndefined = ''undefined''"
| "to_str JNull = ''null''"
| "to_str (JBool b) = (if b then ''true'' else ''false'')"
| "to_str (JNum n) = show_int n"
| "to_str (JStr s) = s"
| "to_str (JArr xs) = join '','' (map (\<lambda>x. if nullish x then [] else to_str x) xs)"
| "to_str (JObj kvs) = ''[object Object]''"

text \<open>\<^verbatim>\<open>String.prototype.includes\<close>.\<close>

fun str_includes :: "string \<Rightarrow> string \<Rightarrow> bool" where
  "str_includes [] m = (m = [])"
| "str_includes (c # cs) m = (prefix m (c # cs) \<or> str_includes cs m)"

text \<open>\<^verbatim>\<open>String.prototype.split\<close> with a one-character separator: the pieces between the
  occurrences of the separator, never an empty list.\<close>

fun split_on :: "char \<Rightarrow> string \<Rightarrow> string list" where
  "split_on c [] = [] # []"
| "split_on c (x # xs) =
     (if x = c then [] # split_on c xs
      else (case split_on c xs of [] \<Rightarrow> [x] # [] | y # ys \<Rightarrow> (x # y) # ys))"

text \<open>\<^verbatim>\<open>e === 'literal'\<close>.\<close>

definition strict_eq_str :: "js_error + jsval \<Rightarrow> string \<Rightarrow> js_error + jsval" where
  "strict_eq_str e s = js_bind e (\<lambda>v. Inr (JBool (v = JStr s)))"

text \<open>\<^verbatim>\<open>if (c) return t; ...rest\<close>, where evaluating \<open>c\<close> may throw.\<close>

definition js_if :: "js_error + jsval \<Rightarrow> (js_error + 'a) \<Rightarrow> (js_error + 'a) \<Rightarrow> js_error + 'a" where
  "js_if c t e = js_bind c (\<lambda>v. if truthy v then t else e)"

section \<open>The webhook worker: data\<close>

text \<open>Request headers, by name. \<^verbatim>\<open>headers.get(name)\<close> is \<^verbatim>\<open>null\<close> for a header that is not
  there; \<^verbatim>\<open>if (!h)\<close> also rejects the empty string.\<close>

type_synonym headers = "string \<Rightarrow> string option"

definition present :: "string option \<Rightarrow> bool" where
  "present h = (case h of None \<Rightarrow> False | Some s \<Rightarrow> s \<noteq> [])"

record QueuedTask =
  q_source :: string
  q_eventId :: string
  originalPayload :: jsval

text \<open>\<^verbatim>\<open>Env\<close> of the webhook worker. The key-value store and the queue are host services: a call
  returns or throws, as the host decides. \<open>Inl e\<close> and \<open>Some e\<close> are a call that throws
  \<open>e\<close>.\<close>

record Env =
  PROCESSED_EVENTS_KV_get :: "string \<Rightarrow> js_error + string option"
  PROCESSED_EVENTS_KV_put :: "string \<Rightarrow> string \<Rightarrow> nat \<Rightarrow> js_error option"
  REVIEW_TASKS_QUEUE_send :: "QueuedTask \<Rightarrow> js_error option"
  GITHUB_WEBHOOK_SECRET :: "string option"
  GITLAB_WEBHOOK_SECRET :: "string option"

text \<open>What the handler takes from the platform: HMAC-SHA-256 of \<^verbatim>\<open>crypto.subtle\<close> (key, message,
  result as bytes), \<^verbatim>\<open>JSON.parse\<close> (\<open>Inl\<close> the message of the syntax error),
  \<^verbatim>\<open>Date.now()\<close> and \<^verbatim>\<open>crypto.randomUUID()\<close>.\<close>

record Platform =
  hmac_sha256 :: "string \<Rightarrow> string \<Rightarrow> 8 word list"
  json_parse :: "string \<Rightarrow> string + jsval"
  date_now :: int
  randomUUID :: string

record Request =
  req_method :: string
  pathname :: string
  req_headers :: headers
  req_text :: string

record Response =
  resp_body :: jsval
  resp_status :: nat

text \<open>The calls the handler makes on the store and the queue, in the order it makes them.\<close>

datatype effect =
    KvGet string
  | KvPut string string nat
  | QueueSend QueuedTask

section \<open>The webhook worker: verifySignature\<close>

text \<open>\<^verbatim>\<open>b.toString(16).padStart(2, '0')\<close> on a byte, and the digest as the source joins it.\<close>

definition hex_digit :: "nat \<Rightarrow> char" where
  "hex_digit d = ''0123456789abcdef'' ! d"

definition byte_hex :: "8 word \<Rightarrow> string" where
  "byte_hex b =
     (let s = (if unat b < 16 then [hex_digit (unat b)]
               else [hex_digit (unat b div 16), hex_digit (unat b mod 16)])
      in replicate (2 - length s) CHR ''0'' @ s)"

definition computedSignatureHex :: "8 word list \<Rightarrow> string" where
  "computedSignatureHex mac = concat (map byte_hex mac)"

definition verifySignature :: "Platform \<Rightarrow> headers \<Rightarrow> Env \<Rightarrow> string \<Rightarrow> string \<Rightarrow> bool" where
  "verifySignature pf hdrs env src rawBody =
     (if src = ''github'' then
        (case hdrs ''X-Hub-Signature-256'' of
           None \<Rightarrow> False
         | Some signatureHeader \<Rightarrow>
             if signatureHeader = [] then False
             else if \<not> present (GITHUB_WEBHOOK_SECRET env) then False
             else (case split_on CHR ''='' signatureHeader of
                     [] \<Rightarrow> False
                   | algorithm # rest \<Rightarrow>
                       if algorithm \<noteq> ''sha256'' then False
                       else (case rest of
                               [] \<Rightarrow> False
                             | signatureHex # others \<Rightarrow>
                                 computedSignatureHex
                                   (hmac_sha256 pf (the (GITHUB_WEBHOOK_SECRET env)) rawBody)
                                 = signatureHex)))
      else if src = ''gitlab'' then
        (case hdrs ''X-Gitlab-Token'' of
           None \<Rightarrow> False
         | Some tokenHeader \<Rightarrow>
             if tokenHeader = [] then False
             else if \<not> present (GITLAB_WEBHOOK_SECRET env) then False
             else tokenHeader = the (GITLAB_WEBHOOK_SECRET env))
      else False)"

section \<open>The webhook worker: generateEventId\<close>

definition gh_pr_cond :: "jsval \<Rightarrow> js_error + jsval" where
  "gh_pr_cond payload =
     js_and (js_and (dot (Inr payload) ''pull_request'')
                    (dot (dot (Inr payload) ''pull_request'') ''node_id''))
            (dot (Inr payload) ''action'')"

definition gh_pr_id :: "jsval \<Rightarrow> js_error + string" where
  "gh_pr_id payload =
     js_bind (dot (dot (Inr payload) ''pull_request'') ''node_id'') (\<lambda>n.
     js_bind (dot (Inr payload) ''action'') (\<lambda>a.
     js_bind (js_or (js_or (qdot (dot (dot (Inr payload) ''pull_request'') ''head'') ''sha'')
                           (dot (Inr payload) ''after''))
                    (Inr (JStr ''unknown_sha''))) (\<lambda>s.
     Inr (''gh_pr_'' @ to_str n @ ''_'' @ to_str a @ ''_'' @ to_str s))))"

definition gh_push_cond :: "jsval \<Rightarrow> js_error + jsval" where
  "gh_push_cond payload =
     js_and (js_and (js_and (dot (Inr payload) ''ref'') (dot (Inr payload) ''after''))
                    (dot (Inr payload) ''repository''))
            (dot (dot (Inr payload) ''repository'') ''node_id'')"

definition gh_push_id :: "jsval \<Rightarrow> js_error + string" where
  "gh_push_id payload =
     js_bind (dot (dot (Inr payload) ''repository'') ''node_id'') (\<lambda>n.
     js_bind (dot (Inr payload) ''ref'') (\<lambda>r.
     js_bind (dot (Inr payload) ''after'') (\<lambda>a.
     Inr (''gh_push_'' @ to_str n @ ''_'' @ to_str r @ ''_'' @ to_str a))))"

definition gh_comment_cond :: "jsval \<Rightarrow> js_error + jsval" where
  "gh_comment_cond payload =
     js_and (js_and (js_and (dot (Inr payload) ''comment'')
                            (dot (dot (Inr payload) ''comment'') ''node_id''))
                    (dot (Inr payload) ''issue''))
            (dot (dot (Inr payload) ''issue'') ''node_id'')"

definition gh_comment_id :: "jsval \<Rightarrow> js_error + string" where
  "gh_comment_id payload =
     js_bind (dot (dot (Inr payload) ''comment'') ''node_id'') (\<lambda>c.
     js_bind (dot (dot (Inr payload) ''issue'') ''node_id'') (\<lambda>i.
     Inr (''gh_comment_'' @ to_str c @ ''_on_issue_'' @ to_str i)))"

definition gl_mr_cond :: "jsval \<Rightarrow> js_error + jsval" where
  "gl_mr_cond payload =
     js_and (js_and (js_and (js_and (js_and (js_and
       (strict_eq_str (dot (Inr payload) ''object_kind'') ''merge_request'')
       (dot (Inr payload) ''project''))
       (dot (dot (Inr payload) ''project'') ''id''))
       (dot (Inr payload) ''object_attributes''))
       (dot (dot (Inr payload) ''object_attributes'') ''iid''))
       (dot (dot (Inr payload) ''object_attributes'') ''last_commit''))
       (dot (dot (dot (Inr payload) ''object_attributes'') ''last_commit'') ''id'')"

definition gl_mr_id :: "jsval \<Rightarrow> js_error + string" where
  "gl_mr_id payload =
     js_bind (dot (dot (Inr payload) ''project'') ''id'') (\<lambda>p.
     js_bind (dot (dot (Inr payload) ''object_attributes'') ''iid'') (\<lambda>i.
     js_bind (dot (dot (dot (Inr payload) ''object_attributes'') ''last_commit'') ''id'') (\<lambda>c.
     Inr (''gl_mr_'' @ to_str p @ ''_'' @ to_str i @ ''_'' @ to_str c))))"

definition gl_push_cond :: "jsval \<Rightarrow> js_error + jsval" where
  "gl_push_cond payload =
     js_and (js_and (js_and
       (strict_eq_str (dot (Inr payload) ''object_kind'') ''push'')
       (dot (Inr payload) ''project_id''))
       (dot (Inr payload) ''ref''))
       (dot (Inr payload) ''after'')"

definition gl_push_id :: "jsval \<Rightarrow> js_error + string" where
  "gl_push_id payload =
     js_bind (dot (Inr payload) ''project_id'') (\<lambda>p.
     js_bind (dot (Inr payload) ''ref'') (\<lambda>r.
     js_bind (dot (Inr payload) ''after'') (\<lambda>a.
     Inr (''gl_push_'' @ to_str p @ ''_'' @ to_str r @ ''_'' @ to_str a))))"

definition gl_note_cond :: "jsval \<Rightarrow> js_error + jsval" where
  "gl_note_cond payload =
     js_and (js_and (js_and (js_and
       (strict_eq_str (dot (Inr payload) ''object_kind'') ''note'')
       (dot (Inr payload) ''project''))
       (dot (dot (Inr payload) ''project'') ''id''))
       (dot (Inr payload) ''object_attributes''))
       (dot (dot (Inr payload) ''object_attributes'') ''id'')"

definition gl_note_id :: "jsval \<Rightarrow> js_error + string" where
  "gl_note_id payload =
     js_bind (dot (dot (Inr payload) ''project'') ''id'') (\<lambda>p.
     js_bind (dot (dot (Inr payload) ''object_attributes'') ''id'') (\<lambda>i.
     Inr (''gl_note_'' @ to_str p @ ''_'' @ to_str i)))"

text \<open>\<^verbatim>\<open>return `...`\<close> inside the \<^verbatim>\<open>try\<close>.\<close>

definition return_id :: "js_error + string \<Rightarrow> js_error + string option" where
  "return_id e = js_bind e (\<lambda>s. Inr (Some s))"

text \<open>The body of the \<^verbatim>\<open>try\<close>; \<open>Inr None\<close> is leaving it without a \<^verbatim>\<open>return\<close>.\<close>

definition generateEventId_try ::
  "string \<Rightarrow> string \<Rightarrow> jsval \<Rightarrow> headers \<Rightarrow> js_error + string option" where
  "generateEventId_try uuid src payload hdrs =
     (if src = ''github'' then
        js_if (gh_pr_cond payload) (return_id (gh_pr_id payload))
       (js_if (gh_push_cond payload) (return_id (gh_push_id payload))
       (js_if (gh_comment_cond payload) (return_id (gh_comment_id payload))
       (if present (hdrs ''X-GitHub-Delivery'')
        then Inr (Some (''gh_delivery_'' @ the (hdrs ''X-GitHub-Delivery'')))
        else Inr (Some (''gh_unknown_'' @ uuid)))))
      else if src = ''gitlab'' then
        (if present (hdrs ''X-Gitlab-Event-UUID'')
         then Inr (Some (''gl_delivery_'' @ the (hdrs ''X-Gitlab-Event-UUID'')))
         else
           js_if (gl_mr_cond payload) (return_id (gl_mr_id payload))
          (js_if (gl_push_cond payload) (return_id (gl_push_id payload))
          (js_if (gl_note_cond payload) (return_id (gl_note_id payload))
          (Inr (Some (''gl_unknown_'' @ uuid))))))
      else Inr None)"

text \<open>\<open>None\<close> is \<^verbatim>\<open>null\<close>. The first argument is the value \<^verbatim>\<open>crypto.randomUUID()\<close> gives
  where the source calls it.\<close>

definition generateEventId :: "string \<Rightarrow> string \<Rightarrow> jsval \<Rightarrow> headers \<Rightarrow> string option" where
  "generateEventId uuid src payload hdrs =
     (case generateEventId_try uuid src payload hdrs of
        Inl e \<Rightarrow> Some (''error_event_id_'' @ uuid)
      | Inr r \<Rightarrow> r)"

subsection \<open>The precedence of the specification\<close>

text \<open>The rules of the specification's event identifier, in its words: for each provider a
  list of rules, each a condition on the payload or the headers with the id it derives, the
  first rule that matches deciding, and a random id when none does. A payload rule cannot
  be evaluated on a payload that is \<^verbatim>\<open>null\<close>: that is the internal failure, flagged by the
  error prefix.\<close>

fun first_match :: "(bool \<times> string) list \<Rightarrow> string \<Rightarrow> string" where
  "first_match [] fallback = fallback"
| "first_match ((c, i) # rules) fallback = (if c then i else first_match rules fallback)"

definition or_else :: "jsval \<Rightarrow> jsval \<Rightarrow> jsval" where
  "or_else a b = (if truthy a then a else b)"

definition rule_gh_pr :: "jsval \<Rightarrow> bool \<times> string" where
  "rule_gh_pr p =
     (truthy (field p ''pull_request'') \<and> truthy (field (field p ''pull_request'') ''node_id'')
        \<and> truthy (field p ''action''),
      ''gh_pr_'' @ to_str (field (field p ''pull_request'') ''node_id'') @ ''_''
        @ to_str (field p ''action'') @ ''_''
        @ to_str (or_else (field (field (field p ''pull_request'') ''head'') ''sha'')
                 (or_else (field p ''after'') (JStr ''unknown_sha''))))"

definition rule_gh_push :: "jsval \<Rightarrow> bool \<times> string" where
  "rule_gh_push p =
     (truthy (field p ''ref'') \<and> truthy (field p ''after'') \<and> truthy (field p ''repository'')
        \<and> truthy (field (field p ''repository'') ''node_id''),
      ''gh_push_'' @ to_str (field (field p ''repository'') ''node_id'') @ ''_''
        @ to_str (field p ''ref'') @ ''_'' @ to_str (field p ''after''))"

definition rule_gh_comment :: "jsval \<Rightarrow> bool \<times> string" where
  "rule_gh_comment p =
     (truthy (field p ''comment'') \<and> truthy (field (field p ''comment'') ''node_id'')
        \<and> truthy (field p ''issue'') \<and> truthy (field (field p ''issue'') ''node_id''),
      ''gh_comment_'' @ to_str (field (field p ''comment'') ''node_id'') @ ''_on_issue_''
        @ to_str (field (field p ''issue'') ''node_id''))"

definition rule_delivery :: "string \<Rightarrow> string \<Rightarrow> headers \<Rightarrow> bool \<times> string" where
  "rule_delivery pre name h = (present (h name), pre @ the (h name))"

definition rule_gl_mr :: "jsval \<Rightarrow> bool \<times> string" where
  "rule_gl_mr p =
     (field p ''object_kind'' = JStr ''merge_request'' \<and> truthy (field p ''project'')
        \<and> truthy (field (field p ''project'') ''id'') \<and> truthy (field p ''object_attributes'')
        \<and> truthy (field (field p ''object_attributes'') ''iid'')
        \<and> truthy (field (field p ''object_attributes'') ''last_commit'')
        \<and> truthy (field (field (field p ''object_attributes'') ''last_commit'') ''id''),
      ''gl_mr_'' @ to_str (field (field p ''project'') ''id'') @ ''_''
        @ to_str (field (field p ''object_attributes'') ''iid'') @ ''_''
        @ to_str (field (field (field p ''object_attributes'') ''last_commit'') ''id''))"

definition rule_gl_push :: "jsval \<Rightarrow> bool \<times> string" where
  "rule_gl_push p =
     (field p ''object_kind'' = JStr ''push'' \<and> truthy (field p ''project_id'')
        \<and> truthy (field p ''ref'') \<and> truthy (field p ''after''),
      ''gl_push_'' @ to_str (field p ''project_id'') @ ''_'' @ to_str (field p ''ref'') @ ''_''
        @ to_str (field p ''after''))"

definition rule_gl_note :: "jsval \<Rightarrow> bool \<times> string" where
  "rule_gl_note p =
     (field p ''object_kind'' = JStr ''note'' \<and> truthy (field p ''project'')
        \<and> truthy (field (field p ''project'') ''id'') \<and> truthy (field p ''object_attributes'')
        \<and> truthy (field (field p ''object_attributes'') ''id''),
      ''gl_note_'' @ to_str (field (field p ''project'') ''id'') @ ''_''
        @ to_str (field (field p ''object_attributes'') ''id''))"

definition identify :: "string \<Rightarrow> string \<Rightarrow> jsval \<Rightarrow> headers \<Rightarrow> string option" where
  "identify uuid provider p h =
     (if provider = ''github'' then
        (if nullish p then Some (''error_event_id_'' @ uuid)
         else Some (first_match
                [rule_gh_pr p, rule_gh_push p, rule_gh_comment p,
                 rule_delivery ''gh_delivery_'' ''X-GitHub-Delivery'' h]
                (''gh_unknown_'' @ uuid)))
      else if provider = ''gitlab'' then
        (if fst (rule_delivery ''gl_delivery_'' ''X-Gitlab-Event-UUID'' h)
         then Some (snd (rule_delivery ''gl_delivery_'' ''X-Gitlab-Event-UUID'' h))
         else if nullish p then Some (''error_event_id_'' @ uuid)
         else Some (first_match [rule_gl_mr p, rule_gl_push p, rule_gl_note p]
                (''gl_unknown_'' @ uuid)))
      else None)"

section \<open>The webhook worker: fetch\<close>

definition jsonResponse :: "jsval \<Rightarrow> nat \<Rightarrow> Response" where
  "jsonResponse data st = \<lparr> resp_body = data, resp_status = st \<rparr>"

definition error_body :: "string \<Rightarrow> jsval" where
  "error_body m = JObj [(''error'', JStr m)]"

text \<open>\<^verbatim>\<open>JSON.stringify({ timestamp: Date.now(), status: "received" })\<close>.\<close>

definition dedup_record :: "int \<Rightarrow> string" where
  "dedup_record now =
     ''{'' @ [CHR 0x22] @ ''timestamp'' @ [CHR 0x22] @ '':'' @ show_int now @ '','' @
     [CHR 0x22] @ ''status'' @ [CHR 0x22] @ '':'' @ [CHR 0x22] @ ''received'' @ [CHR 0x22] @ ''}''"

text \<open>\<^verbatim>\<open>pathname.split('/')[2]\<close>; \<open>None\<close> is \<^verbatim>\<open>undefined\<close>.\<close>

definition webhook_source :: "string \<Rightarrow> string option" where
  "webhook_source path = (case drop 2 (split_on CHR ''/'' path) of [] \<Rightarrow> None | s # rest \<Rightarrow> Some s)"

text \<open>The handler's answer when the \<^verbatim>\<open>catch\<close> around the processing takes an error.\<close>

definition processing_error :: "js_error \<Rightarrow> Response" where
  "processing_error e = jsonResponse (error_body (''Error processing webhook: '' @ message e)) 500"

text \<open>The \<^verbatim>\<open>try\<close> block of the handler with its \<^verbatim>\<open>catch\<close>: the response, and the calls made
  on the store and the queue. A call that throws has been made.\<close>

definition process_webhook ::
  "Platform \<Rightarrow> Env \<Rightarrow> headers \<Rightarrow> string \<Rightarrow> string \<Rightarrow> jsval \<Rightarrow> Response \<times> effect list" where
  "process_webhook pf env hdrs src rawBody payload =
     (if \<not> verifySignature pf hdrs env src rawBody
      then (jsonResponse (error_body ''Invalid signature.'') 401, [])
      else
        (case generateEventId (randomUUID pf) src payload hdrs of
           None \<Rightarrow>
             (jsonResponse (error_body ''Could not determine event ID for deduplication.'') 400, [])
         | Some eventId \<Rightarrow>
             if eventId = [] then
               (jsonResponse (error_body ''Could not determine event ID for deduplication.'') 400, [])
             else
               (case PROCESSED_EVENTS_KV_get env eventId of
                  Inl e \<Rightarrow> (processing_error e, [KvGet eventId])
                | Inr existingEvent \<Rightarrow>
                    if present existingEvent then
                      (jsonResponse (JObj [(''message'', JStr ''Event already processed.''),
                                           (''eventId'', JStr eventId)]) 202,
                       [KvGet eventId])
                    else
                      (let record = dedup_record (date_now pf);
                           taskPayload = \<lparr> q_source = src, q_eventId = eventId,
                                           originalPayload = payload \<rparr>
                       in case PROCESSED_EVENTS_KV_put env eventId record 3600 of
                            Some e \<Rightarrow>
                              (processing_error e, [KvGet eventId, KvPut eventId record 3600])
                          | None \<Rightarrow>
                              (case REVIEW_TASKS_QUEUE_send env taskPayload of
                                 Some e \<Rightarrow>
                                   (processing_error e,
                                    [KvGet eventId, KvPut eventId record 3600,
                                     QueueSend taskPayload])
                               | None \<Rightarrow>
                                   (jsonResponse
                                      (JObj [(''message'',
                                              JStr (''Webhook from '' @ src @ '' (Event ID: '' @ eventId
                                                @ '') received, validated, and enqueued successfully.'')),
                                             (''eventId'', JStr eventId)]) 200,
                                    [KvGet eventId, KvPut eventId record 3600,
                                     QueueSend taskPayload]))))))"

definition fetch :: "Platform \<Rightarrow> Env \<Rightarrow> Request \<Rightarrow> Response \<times> effect list" where
  "fetch pf env request =
     (if req_method request \<noteq> ''POST'' then (jsonResponse (error_body ''Method Not Allowed'') 405, [])
      else if prefix ''/webhook/'' (pathname request) then
        (case webhook_source (pathname request) of
           None \<Rightarrow>
             (jsonResponse (error_body ''Invalid source. Must be \"github\" or \"gitlab\".'') 400, [])
         | Some src \<Rightarrow>
             if src = [] \<or> (src \<noteq> ''github'' \<and> src \<noteq> ''gitlab'') then
               (jsonResponse (error_body ''Invalid source. Must be \"github\" or \"gitlab\".'') 400, [])
             else if req_headers request ''content-type'' \<noteq> Some ''application/json'' then
               (jsonResponse (error_body ''Invalid content type. Must be application/json.'') 400, [])
             else
               (case json_parse pf (req_text request) of
                  Inl m \<Rightarrow> (jsonResponse (error_body (''Invalid JSON payload. '' @ m)) 400, [])
                | Inr payload \<Rightarrow>
                    process_webhook pf env (req_headers request) src (req_text request) payload))
      else (jsonResponse (error_body ''Not found.'') 404, []))"

text \<open>A request that reaches the deduplication check: a POST to \<^verbatim>\<open>/webhook/<src>\<close> for one
  of the two providers, with JSON content that parses to \<open>payload\<close>, whose signature
  verifies and for which the event id \<open>eid\<close> is derived.\<close>

definition admitted :: "Platform \<Rightarrow> Env \<Rightarrow> Request \<Rightarrow> string \<Rightarrow> jsval \<Rightarrow> string \<Rightarrow> bool" where
  "admitted pf env request src payload eid =
     (req_method request = ''POST'' \<and> prefix ''/webhook/'' (pathname request)
      \<and> webhook_source (pathname request) = Some src
      \<and> (src = ''github'' \<or> src = ''gitlab'')
      \<and> req_headers request ''content-type'' = Some ''application/json''
      \<and> json_parse pf (req_text request) = Inr payload
      \<and> verifySignature pf (req_headers request) env src (req_text request)
      \<and> generateEventId (randomUUID pf) src payload (req_headers request) = Some eid)"

text \<open>In a sequence of calls, every queue send comes after a put of a dedup record, with the
  one-hour expiry, under the event id of the task sent.\<close>

definition put_before_send :: "effect list \<Rightarrow> bool" where
  "put_before_send tr = (\<forall>pre t post. tr = pre @ QueueSend t # post \<longrightarrow>
       (\<exists>v. KvPut (q_eventId t) v 3600 \<in> set pre))"

section \<open>The reviewer worker: data\<close>

record Repository =
  fullName :: jsval
  repo_id :: jsval
  defaultBranch :: jsval

record PullRequest =
  pr_id :: jsval
  pr_number :: jsval
  pr_headSha :: jsval
  pr_diffUrl :: jsval
  pr_commentsUrl :: jsval

record MergeRequest =
  mr_id :: jsval
  mr_iid :: jsval
  mr_projectId :: jsval
  mr_headSha :: jsval
  mr_diffUrl :: string
  mr_notesUrl :: string

text \<open>\<^verbatim>\<open>ReviewTask\<close>. The fields copied from the payload hold whatever JSON the payload had.
  The type of \<open>filesToReview\<close> is a parameter: the queue consumer stores the JSON it
  found, \<^verbatim>\<open>callLLM\<close> is declared on an array of file entries.\<close>

record 'f ReviewTask =
  repository :: Repository
  pullRequest :: "PullRequest option"
  mergeRequest :: "MergeRequest option"
  source :: string
  eventId :: string
  reviewType :: jsval
  filesToReview :: 'f

text \<open>\<^verbatim>\<open>LLMResponse\<close>, as \<^verbatim>\<open>callLLM\<close> returns it: \<open>success\<close> is a boolean and \<open>isRetryable\<close>
  a boolean or absent, while \<open>comments\<close>, \<open>summary\<close> and \<open>error\<close> may come out of the
  review service's JSON as they are, unchecked (\<open>JUndefined\<close> when absent). A comment is
  an element of \<open>comments\<close>, any JSON value.\<close>

record LLMResponse =
  success :: bool
  comments :: jsval
  summary :: jsval
  error :: jsval
  rawResponse :: "jsval option"
  isRetryable :: "bool option"

datatype outcome_status = completed | failed | error_calling_llm | error_posting_comment

record ReviewOutcome =
  taskId :: string
  status :: outcome_status
  o_repository :: jsval
  o_pullRequest :: "PullRequest option"
  o_mergeRequest :: "MergeRequest option"
  o_reviewType :: jsval
  o_comments :: jsval
  o_summary :: jsval
  o_error :: jsval
  llmRawResponse :: "jsval option"
  timestamp :: string

section \<open>The reviewer worker: processLLMResponse\<close>

text \<open>The first argument is the value of \<^verbatim>\<open>new Date().toISOString()\<close>.\<close>

definition processLLMResponse :: "string \<Rightarrow> LLMResponse \<Rightarrow> 'f ReviewTask \<Rightarrow> ReviewOutcome" where
  "processLLMResponse now llmResponse task =
     (if \<not> success llmResponse then
        \<lparr> taskId = eventId task,
          status = (if isRetryable llmResponse = Some False then error_calling_llm else failed),
          o_repository = fullName (repository task),
          o_pullRequest = pullRequest task,
          o_mergeRequest = mergeRequest task,
          o_reviewType = reviewType task,
          o_comments = JUndefined,
          o_summary = JUndefined,
          o_error = or_else (error llmResponse) (JStr ''LLM processing failed.''),
          llmRawResponse = rawResponse llmResponse,
          timestamp = now \<rparr>
      else
        \<lparr> taskId = eventId task,
          status = completed,
          o_repository = fullName (repository task),
          o_pullRequest = pullRequest task,
          o_mergeRequest = mergeRequest task,
          o_reviewType = reviewType task,
          o_comments = comments llmResponse,
          o_summary = summary llmResponse,
          o_error = JUndefined,
          llmRawResponse = rawResponse llmResponse,
          timestamp = now \<rparr>)"

section \<open>The reviewer worker: callLLM\<close>

record FileEntry =
  path :: string
  content :: "string option"
  diff :: "string option"

text \<open>\<^verbatim>\<open>Env\<close> of the reviewer worker, without the store and the queue.\<close>

record ReviewerEnv =
  LLM_API_KEY :: string
  GITHUB_TOKEN :: string
  GITLAB_TOKEN :: string
  LLM_ENDPOINT :: string
  LLM_MODEL_NAME :: "string option"

text \<open>The request sent to the review service (the constant fields left out), and what
  \<^verbatim>\<open>fetch\<close> followed by \<^verbatim>\<open>response.text()\<close> gives: an exception, or a status with the body
  text.\<close>

record LlmRequest =
  llm_url :: string
  llm_authorization :: string
  llm_model :: string
  llm_system :: string
  llm_user :: string

datatype http_result =
    NetworkError js_error
  | HttpResponse nat string

definition response_ok :: "nat \<Rightarrow> bool" where
  "response_ok st = (200 \<le> st \<and> st \<le> 299)"

definition newline :: string where
  "newline = [CHR 0x0A]"

definition file_section :: "FileEntry \<Rightarrow> string" where
  "file_section file =
     newline @ ''File: '' @ path file @ newline @
     (if present (diff file) then ''Diff:'' @ newline @ the (diff file) @ newline
      else if present (content file) then ''Content:'' @ newline @ the (content file) @ newline
      else [])"

definition promptContent :: "FileEntry list ReviewTask \<Rightarrow> string" where
  "promptContent task =
     ''Please review the following code changes for the repository ''
       @ to_str (fullName (repository task)) @ ''.'' @ newline
       @ ''Source: '' @ source task @ newline
     @ (case pullRequest task of
          Some pr \<Rightarrow> ''Pull Request: #'' @ to_str (pr_number pr) @ newline
        | None \<Rightarrow>
            (case mergeRequest task of
               Some mr \<Rightarrow> ''Merge Request: !'' @ to_str (mr_iid mr) @ newline
             | None \<Rightarrow> []))
     @ (if filesToReview task \<noteq> [] then concat (map file_section (filesToReview task))
        else ''No specific file diffs provided. Please provide a general review.'' @ newline)
     @ newline @ ''Format your response as a JSON object with 'success' (boolean), 'comments' (array of objects with 'filePath', 'lineNumber' or 'position', and 'comment'), and 'summary' (string).''
     @ (if reviewType task = JStr ''detailed'' then '' Focus on detailed, line-by-line feedback.''
        else '' Focus on a general overview and high-level suggestions.'')"

definition llmRequest :: "ReviewerEnv \<Rightarrow> FileEntry list ReviewTask \<Rightarrow> LlmRequest" where
  "llmRequest env task =
     \<lparr> llm_url = LLM_ENDPOINT env,
       llm_authorization = ''Bearer '' @ LLM_API_KEY env,
       llm_model = (if present (LLM_MODEL_NAME env) then the (LLM_MODEL_NAME env) else ''gpt-3.5-turbo''),
       llm_system = ''You are an expert code reviewer.'',
       llm_user = promptContent task \<rparr>"

text \<open>\<^verbatim>\<open>x?.[0]\<close>.\<close>

fun index0 :: "jsval \<Rightarrow> jsval" where
  "index0 (JArr (x # xs)) = x"
| "index0 (JStr (c # cs)) = JStr [c]"
| "index0 (JObj kvs) = field (JObj kvs) ''0''"
| "index0 v = JUndefined"

text \<open>\<^verbatim>\<open>{ ...parsedLlmContent, rawResponse: jsonResponse, isRetryable: false }\<close>: the fields
  of the parsed content go into the result as they are.\<close>

definition spread_content :: "jsval \<Rightarrow> bool \<Rightarrow> jsval \<Rightarrow> LLMResponse" where
  "spread_content parsedLlmContent b jsonResponseBody =
     \<lparr> success = b,
       comments = field parsedLlmContent ''comments'',
       summary = field parsedLlmContent ''summary'',
       error = field parsedLlmContent ''error'',
       rawResponse = Some jsonResponseBody,
       isRetryable = Some False \<rparr>"

text \<open>The innermost \<^verbatim>\<open>try\<close>: parse the content string and look at its \<open>success\<close> field.\<close>

definition content_try ::
  "(string \<Rightarrow> string + jsval) \<Rightarrow> jsval \<Rightarrow> string \<Rightarrow> js_error + LLMResponse" where
  "content_try parse jsonResponseBody llmContentString =
     (case parse llmContentString of
        Inl m \<Rightarrow> Inl (Error m)
      | Inr parsedLlmContent \<Rightarrow>
          js_bind (dot (Inr parsedLlmContent) ''success'') (\<lambda>s.
            case s of
              JBool b \<Rightarrow> Inr (spread_content parsedLlmContent b jsonResponseBody)
            | _ \<Rightarrow> Inr \<lparr> success = False, comments = JUndefined, summary = JUndefined,
                          error = JStr ''LLM output format error: missing 'success'.'',
                          rawResponse = Some jsonResponseBody, isRetryable = Some False \<rparr>))"

text \<open>The middle \<^verbatim>\<open>try\<close>: parse the response text and find the content string.\<close>

definition envelope_try ::
  "(string \<Rightarrow> string + jsval) \<Rightarrow> string \<Rightarrow> js_error + LLMResponse" where
  "envelope_try parse responseText =
     (case parse responseText of
        Inl m \<Rightarrow> Inl (Error m)
      | Inr jsonResponseBody \<Rightarrow>
          js_bind (qdot (qdot (js_bind (dot (Inr jsonResponseBody) ''choices'')
                                 (\<lambda>choices. Inr (if nullish choices then JUndefined
                                                  else index0 choices)))
                              ''message'') ''content'') (\<lambda>llmContentString.
            case llmContentString of
              JStr str \<Rightarrow>
                (case content_try parse jsonResponseBody str of
                   Inr r \<Rightarrow> Inr r
                 | Inl e \<Rightarrow>
                     Inr \<lparr> success = False, comments = JUndefined, summary = JUndefined,
                           error = JStr (''LLM content not valid JSON: '' @ message e),
                           rawResponse = Some jsonResponseBody, isRetryable = Some False \<rparr>)
            | _ \<Rightarrow> Inr \<lparr> success = False, comments = JUndefined, summary = JUndefined,
                          error = JStr ''LLM response structure error.'',
                          rawResponse = Some jsonResponseBody, isRetryable = Some False \<rparr>))"

text \<open>\<open>callLLM\<close>. The first two arguments are \<^verbatim>\<open>JSON.parse\<close> and the network: what the
  request gets back.\<close>

definition callLLM ::
  "(string \<Rightarrow> string + jsval) \<Rightarrow> (LlmRequest \<Rightarrow> http_result) \<Rightarrow>
   FileEntry list ReviewTask \<Rightarrow> ReviewerEnv \<Rightarrow> LLMResponse" where
  "callLLM parse net task env =
     (case net (llmRequest env task) of
        NetworkError e \<Rightarrow>
          \<lparr> success = False, comments = JUndefined, summary = JUndefined,
            error = JStr (''Network error calling LLM: '' @ message e),
            rawResponse = None, isRetryable = Some True \<rparr>
      | HttpResponse st responseText \<Rightarrow>
          if \<not> response_ok st then
            \<lparr> success = False, comments = JUndefined, summary = JUndefined,
              error = JStr (''LLM API error '' @ show_nat st @ '': '' @ take 100 responseText),
              rawResponse = Some (JStr responseText), isRetryable = Some (st \<ge> 500) \<rparr>
          else
            (case envelope_try parse responseText of
               Inr r \<Rightarrow> r
             | Inl e \<Rightarrow>
                 \<lparr> success = False, comments = JUndefined, summary = JUndefined,
                   error = JStr (''LLM API response not JSON: '' @ message e),
                   rawResponse = Some (JStr responseText), isRetryable = Some True \<rparr>))"

text \<open>\<^verbatim>\<open>jsonResponse.choices?.[0]?.message?.content\<close> on a parsed body that is not \<^verbatim>\<open>null\<close>.\<close>

definition content_of :: "jsval \<Rightarrow> jsval" where
  "content_of j = field (field (index0 (field j ''choices'')) ''message'') ''content''"


section \<open>The reviewer worker: postCommentsToVCS\<close>

record VcsRequest =
  vcs_url :: jsval
  vcs_authorization :: string
  vcs_body :: jsval

text \<open>What \<^verbatim>\<open>fetch\<close> gives for a comment: a response (status and text) or an exception. The loop
  writes one of three lines to the console for it, and goes on.\<close>

datatype post_result =
    PostResponse nat string
  | PostNetworkError js_error

datatype post_log =
    PostedOk
  | PostFailed nat string
  | PostThrew string

text \<open>\<^verbatim>\<open>x.length\<close>, and \<^verbatim>\<open>x > 0\<close>. The comparison turns its left operand into a number; what
  number a string stands for is left to the language: the first argument of \<open>gt_zero\<close>
  says of a string whether it reads as a number above zero. \<^verbatim>\<open>undefined\<close>, \<^verbatim>\<open>null\<close> and
  objects are not above zero; an array is compared through its string.\<close>

fun js_length :: "jsval \<Rightarrow> jsval" where
  "js_length (JArr xs) = JNum (int (length xs))"
| "js_length (JStr s) = JNum (int (length s))"
| "js_length (JObj kvs) = field (JObj kvs) ''length''"
| "js_length v = JUndefined"

fun gt_zero :: "(string \<Rightarrow> bool) \<Rightarrow> jsval \<Rightarrow> bool" where
  "gt_zero str_gt (JNum n) = (n > 0)"
| "gt_zero str_gt (JBool b) = b"
| "gt_zero str_gt (JStr s) = str_gt s"
| "gt_zero str_gt (JArr xs) = str_gt (to_str (JArr xs))"
| "gt_zero str_gt v = False"

text \<open>\<^verbatim>\<open>for (const comment of comments)\<close>: the elements of an array, the characters of a
  string; \<open>None\<close> where the value cannot be iterated and the loop throws.\<close>

fun iterate :: "jsval \<Rightarrow> jsval list option" where
  "iterate (JArr xs) = Some xs"
| "iterate (JStr s) = Some (map (\<lambda>c. JStr [c]) s)"
| "iterate v = None"

text \<open>The request for a comment that is not \<^verbatim>\<open>null\<close>; its fields are read as they are.\<close>

definition github_request :: "ReviewerEnv \<Rightarrow> PullRequest \<Rightarrow> jsval \<Rightarrow> VcsRequest" where
  "github_request env pr c =
     \<lparr> vcs_url = pr_commentsUrl pr,
       vcs_authorization = ''Bearer '' @ GITHUB_TOKEN env,
       vcs_body = JObj [(''body'', field c ''comment''), (''commit_id'', pr_headSha pr),
                        (''path'', field c ''filePath''), (''line'', field c ''lineNumber''),
                        (''position'', field c ''position'')] \<rparr>"

definition gitlab_request :: "ReviewerEnv \<Rightarrow> MergeRequest \<Rightarrow> jsval \<Rightarrow> VcsRequest" where
  "gitlab_request env mr c =
     \<lparr> vcs_url = JStr (mr_notesUrl mr),
       vcs_authorization = ''Bearer '' @ GITLAB_TOKEN env,
       vcs_body = JObj ((''body'', field c ''comment'') #
         (if truthy (field c ''filePath'')
             \<and> truthy (or_else (field c ''lineNumber'') (field c ''position''))
          then [(''position'',
                 JObj [(''position_type'', JStr ''text''), (''base_sha'', mr_headSha mr),
                       (''start_sha'', mr_headSha mr), (''head_sha'', mr_headSha mr),
                       (''new_line'', or_else (field c ''lineNumber'') (field c ''position'')),
                       (''old_path'', field c ''filePath''), (''new_path'', field c ''filePath'')])]
          else [])) \<rparr>"

text \<open>The \<^verbatim>\<open>for\<close> loop over the comments, with the \<^verbatim>\<open>try\<close> around each post: the requests
  posted with the line logged for each, and the error that ends the loop, if one does.
  Whatever the post comes to, the loop goes on. On a comment that is \<^verbatim>\<open>null\<close> the builder of
  the request throws inside the \<^verbatim>\<open>try\<close>; the \<^verbatim>\<open>catch\<close> then reads \<^verbatim>\<open>comment.filePath\<close> for its
  log line and throws in its turn, out of the loop.\<close>

fun post_each ::
  "(VcsRequest \<Rightarrow> post_result) \<Rightarrow> (jsval \<Rightarrow> VcsRequest) \<Rightarrow> jsval list \<Rightarrow>
   (VcsRequest \<times> post_log) list \<times> js_error option" where
  "post_each net build [] = ([], None)"
| "post_each net build (c # cs) =
     (if nullish c then
        ([], Some (TypeError ''Cannot read properties of undefined or null (reading filePath)''))
      else
        (case post_each net build cs of
           (posts, e) \<Rightarrow>
             ((build c,
               (case net (build c) of
                  PostResponse st errorText \<Rightarrow>
                    if response_ok st then PostedOk else PostFailed st (take 100 errorText)
                | PostNetworkError e' \<Rightarrow> PostThrew (message e'))) # posts,
              e)))"

definition post_all ::
  "(VcsRequest \<Rightarrow> post_result) \<Rightarrow> (jsval \<Rightarrow> VcsRequest) \<Rightarrow> jsval \<Rightarrow>
   (VcsRequest \<times> post_log) list \<times> js_error option" where
  "post_all net build cs =
     (case iterate cs of
        None \<Rightarrow> ([], Some (TypeError ''comments is not iterable''))
      | Some xs \<Rightarrow> post_each net build xs)"

text \<open>\<open>postCommentsToVCS\<close>: the requests posted, and the error thrown, if one is. The error
  for a provider that is not supported is thrown before the loop.\<close>

definition postCommentsToVCS ::
  "(VcsRequest \<Rightarrow> post_result) \<Rightarrow> 'f ReviewTask \<Rightarrow> jsval \<Rightarrow> ReviewerEnv \<Rightarrow>
   (VcsRequest \<times> post_log) list \<times> js_error option" where
  "postCommentsToVCS net task cs env =
     (if \<not> truthy cs \<or> js_length cs = JNum 0 then ([], None)
      else if source task = ''github'' \<and> pullRequest task \<noteq> None then
        post_all net (github_request env (the (pullRequest task))) cs
      else if source task = ''gitlab'' \<and> mergeRequest task \<noteq> None then
        post_all net (gitlab_request env (the (mergeRequest task))) cs
      else ([], Some (Error (''Unsupported VCS: '' @ source task))))"

section \<open>The reviewer worker: the queue consumer\<close>

text \<open>The body of a queue message. \<open>reviewType\<close> and \<open>filesToReview\<close> are optional:
  \<open>JUndefined\<close> when absent.\<close>

record WebhookQueueMessage =
  m_source :: string
  m_eventId :: string
  m_originalPayload :: jsval
  m_reviewType :: jsval
  m_filesToReview :: jsval

text \<open>What the consumer gets from outside while it handles one message: the result of
  \<^verbatim>\<open>await callLLM(currentTask, env)\<close> (a response, or an error thrown: \<open>callLLM\<close> builds
  its prompt from the unchecked \<open>filesToReview\<close> before its own \<^verbatim>\<open>try\<close>), the network for the
  comment posts, the put of the result store (\<open>Some e\<close>: the put throws \<open>e\<close>), the
  value of \<^verbatim>\<open>new Date().toISOString()\<close>, and the language's reading of a string as a
  number above zero (for \<^verbatim>\<open>comments.length > 0\<close>).\<close>

record Services =
  callLLM_result :: "jsval ReviewTask \<Rightarrow> js_error + LLMResponse"
  vcs_net :: "VcsRequest \<Rightarrow> post_result"
  REVIEW_RESULTS_KV_put :: "string \<Rightarrow> ReviewOutcome \<Rightarrow> js_error option"
  now_iso :: string
  string_gt_zero :: "string \<Rightarrow> bool"

text \<open>What the consumer does to the outside: a comment posted, a put of an outcome under a
  key with its metadata (status and timestamp), the message acknowledged.\<close>

datatype reviewer_effect =
    Post VcsRequest post_log
  | OutcomePut string ReviewOutcome "outcome_status \<times> string"
  | Ack

text \<open>\<^verbatim>\<open>op.pull_request ? { ... } : undefined\<close> of the task.\<close>

definition task_pullRequest :: "jsval \<Rightarrow> js_error + PullRequest option" where
  "task_pullRequest op =
     js_bind (dot (Inr op) ''pull_request'') (\<lambda>c.
       if truthy c then
         js_bind (dot (dot (Inr op) ''pull_request'') ''id'') (\<lambda>i.
         js_bind (dot (dot (Inr op) ''pull_request'') ''number'') (\<lambda>n.
         js_bind (js_or (qdot (dot (dot (Inr op) ''pull_request'') ''head'') ''sha'')
                        (dot (dot (Inr op) ''pull_request'') ''diff_head_sha'')) (\<lambda>h.
         js_bind (dot (dot (Inr op) ''pull_request'') ''diff_url'') (\<lambda>d.
         js_bind (dot (dot (Inr op) ''pull_request'') ''comments_url'') (\<lambda>u.
         Inr (Some \<lparr> pr_id = i, pr_number = n, pr_headSha = h, pr_diffUrl = d,
                     pr_commentsUrl = u \<rparr>))))))
       else Inr None)"

text \<open>\<^verbatim>\<open>op.object_attributes && op.object_kind === 'merge_request' ? { ... } : undefined\<close>.\<close>

definition task_mergeRequest :: "jsval \<Rightarrow> js_error + MergeRequest option" where
  "task_mergeRequest op =
     js_bind (js_and (dot (Inr op) ''object_attributes'')
                     (strict_eq_str (dot (Inr op) ''object_kind'') ''merge_request'')) (\<lambda>c.
       if truthy c then
         js_bind (dot (dot (Inr op) ''object_attributes'') ''id'') (\<lambda>i.
         js_bind (dot (dot (Inr op) ''object_attributes'') ''iid'') (\<lambda>iid.
         js_bind (dot (dot (Inr op) ''project'') ''id'') (\<lambda>p.
         js_bind (js_or (qdot (dot (dot (Inr op) ''object_attributes'') ''last_commit'') ''id'')
                        (dot (dot (Inr op) ''object_attributes'') ''diff_head_sha'')) (\<lambda>h.
         js_bind (dot (dot (Inr op) ''project'') ''web_url'') (\<lambda>w.
         js_bind (dot (dot (Inr op) ''object_attributes'') ''iid'') (\<lambda>iid2.
         js_bind (dot (dot (Inr op) ''project'') ''id'') (\<lambda>p2.
         js_bind (dot (dot (Inr op) ''object_attributes'') ''iid'') (\<lambda>iid3.
         Inr (Some \<lparr> mr_id = i, mr_iid = iid, mr_projectId = p, mr_headSha = h,
                     mr_diffUrl = to_str w @ ''/-/merge_requests/'' @ to_str iid2 @ ''/diffs.json'',
                     mr_notesUrl = ''https://gitlab.com/api/v4/projects/'' @ to_str p2
                        @ ''/merge_requests/'' @ to_str iid3 @ ''/notes'' \<rparr>)))))))))
       else Inr None)"

text \<open>The assignment to \<^verbatim>\<open>currentTask\<close>: the fields in the order the object literal
  evaluates them.\<close>

definition normalize :: "WebhookQueueMessage \<Rightarrow> js_error + jsval ReviewTask" where
  "normalize b =
     (let op = m_originalPayload b in
      js_bind (js_or (js_or (qdot (dot (Inr op) ''repository'') ''full_name'')
                            (qdot (dot (Inr op) ''project'') ''path_with_namespace''))
                     (Inr (JStr ''unknown/repo''))) (\<lambda>fn.
      js_bind (js_or (js_or (qdot (dot (Inr op) ''repository'') ''id'')
                            (qdot (dot (Inr op) ''project'') ''id''))
                     (Inr (JNum 0))) (\<lambda>rid.
      js_bind (js_or (js_or (qdot (dot (Inr op) ''repository'') ''default_branch'')
                            (qdot (dot (Inr op) ''project'') ''default_branch''))
                     (Inr (JStr ''main''))) (\<lambda>db.
      js_bind (task_pullRequest op) (\<lambda>pr.
      js_bind (task_mergeRequest op) (\<lambda>mr.
      js_bind (js_or (js_or (Inr (m_reviewType b)) (dot (Inr op) ''reviewType''))
                     (Inr (JStr ''general''))) (\<lambda>rt.
      js_bind (js_or (js_or (Inr (m_filesToReview b)) (dot (Inr op) ''filesToReview''))
                     (Inr (JArr []))) (\<lambda>files.
      Inr \<lparr> repository = \<lparr> fullName = fn, repo_id = rid, defaultBranch = db \<rparr>,
            pullRequest = pr, mergeRequest = mr,
            source = m_source b, eventId = m_eventId b,
            reviewType = rt, filesToReview = files \<rparr>))))))))"

text \<open>\<^verbatim>\<open>currentTask.pullRequest?.number\<close> and \<^verbatim>\<open>currentTask.mergeRequest?.iid\<close>.\<close>

definition task_number :: "'f ReviewTask \<Rightarrow> jsval" where
  "task_number t = (case pullRequest t of Some pr \<Rightarrow> pr_number pr | None \<Rightarrow> JUndefined)"

definition task_iid :: "'f ReviewTask \<Rightarrow> jsval" where
  "task_iid t = (case mergeRequest t of Some mr \<Rightarrow> mr_iid mr | None \<Rightarrow> JUndefined)"

text \<open>The key of the put at the end of the \<^verbatim>\<open>try\<close> block.\<close>

definition reviewId :: "'f ReviewTask \<Rightarrow> string" where
  "reviewId t =
     ''review:'' @ source t @ '':'' @ to_str (fullName (repository t)) @ '':''
       @ to_str (or_else (task_number t) (task_iid t)) @ '':'' @ eventId t"

text \<open>The key of the put in the \<^verbatim>\<open>catch\<close> block; \<open>tn\<close> and \<open>ti\<close> are
  \<^verbatim>\<open>currentTask?.pullRequest?.number\<close> and \<^verbatim>\<open>currentTask?.mergeRequest?.iid\<close>.\<close>

definition errorReviewId :: "ReviewOutcome \<Rightarrow> jsval \<Rightarrow> jsval \<Rightarrow> jsval \<Rightarrow> string" where
  "errorReviewId outcome tn ti op =
     ''review:'' @ taskId outcome @ '':'' @ to_str (o_repository outcome) @ '':''
       @ to_str (or_else tn (or_else ti
            (or_else (field (field op ''pull_request'') ''number'')
            (or_else (field (field op ''object_attributes'') ''iid'')
                     (JStr ''unknown_pr_mr'')))))
       @ '':'' @ taskId outcome"

text \<open>One run of the \<^verbatim>\<open>try\<close> block: the variables the \<^verbatim>\<open>catch\<close> block reads, what has been
  done, and the error that ended the run, if one did.\<close>

record Attempt =
  currentTask :: "jsval ReviewTask option"
  reviewOutcome :: "ReviewOutcome option"
  done_effects :: "reviewer_effect list"
  thrown :: "js_error option"

text \<open>The comments posted, as effects.\<close>

definition as_posts :: "(VcsRequest \<times> post_log) list \<Rightarrow> reviewer_effect list" where
  "as_posts posts = map (\<lambda>(rq, l). Post rq l) posts"

text \<open>\<^verbatim>\<open>reviewOutcome.comments && reviewOutcome.comments.length > 0\<close>.\<close>

definition has_comments :: "Services \<Rightarrow> ReviewOutcome \<Rightarrow> bool" where
  "has_comments sv outcome =
     (truthy (o_comments outcome)
      \<and> gt_zero (string_gt_zero sv) (js_length (o_comments outcome)))"

text \<open>The rest of the \<^verbatim>\<open>try\<close> block once the outcome is computed and no retry is asked for:
  publish the comments, store the outcome, acknowledge. When the publisher throws, the
  comments it has posted before stay posted.\<close>

definition publish_and_store ::
  "Services \<Rightarrow> ReviewerEnv \<Rightarrow> jsval ReviewTask \<Rightarrow> ReviewOutcome \<Rightarrow> Attempt" where
  "publish_and_store sv env t outcome =
     (case (if status outcome = completed \<and> has_comments sv outcome
            then postCommentsToVCS (vcs_net sv) t (o_comments outcome) env
            else ([], None)) of
        (posts, Some e) \<Rightarrow>
          \<lparr> currentTask = Some t, reviewOutcome = Some outcome, done_effects = as_posts posts,
            thrown = Some e \<rparr>
      | (posts, None) \<Rightarrow>
          (case REVIEW_RESULTS_KV_put sv (reviewId t) outcome of
             Some e \<Rightarrow>
               \<lparr> currentTask = Some t, reviewOutcome = Some outcome,
                 done_effects = as_posts posts
                   @ [OutcomePut (reviewId t) outcome (status outcome, timestamp outcome)],
                 thrown = Some e \<rparr>
           | None \<Rightarrow>
               \<lparr> currentTask = Some t, reviewOutcome = Some outcome,
                 done_effects = as_posts posts
                   @ [OutcomePut (reviewId t) outcome (status outcome, timestamp outcome), Ack],
                 thrown = None \<rparr>))"

definition try_block :: "Services \<Rightarrow> ReviewerEnv \<Rightarrow> WebhookQueueMessage \<Rightarrow> Attempt" where
  "try_block sv env b =
     (case normalize b of
        Inl e \<Rightarrow>
          \<lparr> currentTask = None, reviewOutcome = None, done_effects = [], thrown = Some e \<rparr>
      | Inr t \<Rightarrow>
          (case callLLM_result sv t of
             Inl e \<Rightarrow>
               \<lparr> currentTask = Some t, reviewOutcome = None, done_effects = [], thrown = Some e \<rparr>
           | Inr llmResponse \<Rightarrow>
               if isRetryable llmResponse = Some True \<and> \<not> success llmResponse then
                 \<lparr> currentTask = Some t,
                   reviewOutcome = Some (processLLMResponse (now_iso sv) llmResponse t),
                   done_effects = [],
                   thrown = Some (RetryableWorkerError
                     (to_str (or_else (error llmResponse)
                                (JStr ''Retryable LLM error from llmResponse'')))) \<rparr>
               else publish_and_store sv env t (processLLMResponse (now_iso sv) llmResponse t)))"

text \<open>\<^verbatim>\<open>error instanceof RetryableWorkerError || error.isRetryable === true\<close>.\<close>

fun isErrorRetryable :: "js_error \<Rightarrow> bool" where
  "isErrorRetryable (RetryableWorkerError m) = True"
| "isErrorRetryable (HostError r m) = r"
| "isErrorRetryable e = False"

text \<open>The outcome the \<^verbatim>\<open>catch\<close> block builds when there is neither an outcome nor a task:
  from the raw payload. It reads \<^verbatim>\<open>originalPayload.project.id\<close> without a guard.\<close>

definition fallback_pullRequest :: "jsval \<Rightarrow> PullRequest option" where
  "fallback_pullRequest op =
     (if truthy (field op ''pull_request'') then
        Some \<lparr> pr_id = field (field op ''pull_request'') ''id'',
               pr_number = field (field op ''pull_request'') ''number'',
               pr_headSha = field (field (field op ''pull_request'') ''head'') ''sha'',
               pr_diffUrl = field (field op ''pull_request'') ''diff_url'',
               pr_commentsUrl = field (field op ''pull_request'') ''comments_url'' \<rparr>
      else None)"

definition fallback_mergeRequest :: "jsval \<Rightarrow> js_error + MergeRequest option" where
  "fallback_mergeRequest op =
     js_bind (js_and (qdot (Inr op) ''object_attributes'')
                     (strict_eq_str (qdot (Inr op) ''object_kind'') ''merge_request'')) (\<lambda>c.
       if truthy c then
         js_bind (dot (dot (Inr op) ''object_attributes'') ''id'') (\<lambda>i.
         js_bind (dot (dot (Inr op) ''object_attributes'') ''iid'') (\<lambda>iid.
         js_bind (dot (dot (Inr op) ''project'') ''id'') (\<lambda>p.
         js_bind (qdot (dot (dot (Inr op) ''object_attributes'') ''last_commit'') ''id'') (\<lambda>h.
         js_bind (dot (dot (Inr op) ''project'') ''web_url'') (\<lambda>w.
         js_bind (dot (dot (Inr op) ''object_attributes'') ''iid'') (\<lambda>iid2.
         js_bind (dot (dot (Inr op) ''project'') ''id'') (\<lambda>p2.
         js_bind (dot (dot (Inr op) ''object_attributes'') ''iid'') (\<lambda>iid3.
         Inr (Some \<lparr> mr_id = i, mr_iid = iid, mr_projectId = p, mr_headSha = h,
                     mr_diffUrl = to_str w @ ''/-/merge_requests/'' @ to_str iid2 @ ''/diffs.json'',
                     mr_notesUrl = ''https://gitlab.com/api/v4/projects/'' @ to_str p2
                        @ ''/merge_requests/'' @ to_str iid3 @ ''/notes'' \<rparr>)))))))))
       else Inr None)"

definition fallback_outcome ::
  "string \<Rightarrow> WebhookQueueMessage \<Rightarrow> js_error \<Rightarrow> js_error + ReviewOutcome" where
  "fallback_outcome now b err =
     (let op = m_originalPayload b in
      js_bind (fallback_mergeRequest op) (\<lambda>mr.
      Inr \<lparr> taskId = (if m_eventId b \<noteq> [] then m_eventId b else ''unknown_event''),
            status = failed,
            o_repository = or_else (field (field op ''repository'') ''full_name'')
                            (or_else (field (field op ''project'') ''path_with_namespace'')
                                     (JStr ''unknown/repo'')),
            o_pullRequest = fallback_pullRequest op,
            o_mergeRequest = mr,
            o_reviewType = or_else (m_reviewType b) (JStr ''general''),
            o_comments = JUndefined, o_summary = JUndefined,
            o_error = JStr (''Critical processing error before task formation: '' @ message err),
            llmRawResponse = None,
            timestamp = now \<rparr>))"

text \<open>\<^verbatim>\<open>x?.includes(m)\<close> for a string \<open>m\<close>: \<^verbatim>\<open>undefined\<close> on \<^verbatim>\<open>undefined\<close> and \<^verbatim>\<open>null\<close>, the
  substring test on a string, the membership test on an array, and a \<^verbatim>\<open>TypeError\<close> on
  everything else, which has no such method.\<close>

fun js_includes :: "jsval \<Rightarrow> string \<Rightarrow> js_error + jsval" where
  "js_includes JUndefined m = Inr JUndefined"
| "js_includes JNull m = Inr JUndefined"
| "js_includes (JStr s) m = Inr (JBool (str_includes s m))"
| "js_includes (JArr xs) m = Inr (JBool (JStr m \<in> set xs))"
| "js_includes v m = Inl (TypeError ''reviewOutcome.error.includes is not a function'')"

text \<open>The outcome after the three-way \<^verbatim>\<open>if\<close> at the head of the \<^verbatim>\<open>catch\<close> block. Where an
  outcome exists, its \<open>error\<close> is asked whether it includes the message of the error
  caught, which throws when the review service's \<open>error\<close> is neither a string nor an
  array.\<close>

definition amend_outcome :: "ReviewOutcome \<Rightarrow> js_error \<Rightarrow> js_error + ReviewOutcome" where
  "amend_outcome outcome err =
     js_bind (js_includes (o_error outcome) (message err)) (\<lambda>inc.
       let o1 = (if truthy inc then outcome
                 else outcome \<lparr> o_error :=
                        JStr (if truthy (o_error outcome)
                              then to_str (o_error outcome) @ ''; Outer catch: '' @ message err
                              else ''Outer catch: '' @ message err) \<rparr>)
       in Inr (if isErrorRetryable err \<and> status o1 \<noteq> failed then o1 \<lparr> status := failed \<rparr>
               else o1))"

definition handler_outcome ::
  "string \<Rightarrow> WebhookQueueMessage \<Rightarrow> Attempt \<Rightarrow> js_error \<Rightarrow> js_error + ReviewOutcome" where
  "handler_outcome now b a err =
     (case reviewOutcome a of
        Some outcome \<Rightarrow> amend_outcome outcome err
      | None \<Rightarrow>
          (case currentTask a of
             Some t \<Rightarrow>
               Inr \<lparr> taskId = eventId t, status = failed,
                     o_repository = fullName (repository t),
                     o_pullRequest = pullRequest t, o_mergeRequest = mergeRequest t,
                     o_reviewType = reviewType t,
                     o_comments = JUndefined, o_summary = JUndefined,
                     o_error = JStr (''Initial processing error: '' @ message err),
                     llmRawResponse = None, timestamp = now \<rparr>
           | None \<Rightarrow> fallback_outcome now b err))"

definition handler_key :: "WebhookQueueMessage \<Rightarrow> Attempt \<Rightarrow> ReviewOutcome \<Rightarrow> string" where
  "handler_key b a outcome =
     errorReviewId outcome
       (case currentTask a of Some t \<Rightarrow> task_number t | None \<Rightarrow> JUndefined)
       (case currentTask a of Some t \<Rightarrow> task_iid t | None \<Rightarrow> JUndefined)
       (m_originalPayload b)"

text \<open>The \<^verbatim>\<open>catch\<close> block: what has been done by its end, and the error it throws on, if it
  does. The put is in a \<^verbatim>\<open>try\<close> of its own: whether it throws makes no difference.\<close>

definition catch_block ::
  "Services \<Rightarrow> WebhookQueueMessage \<Rightarrow> Attempt \<Rightarrow> js_error \<Rightarrow>
   reviewer_effect list \<times> js_error option" where
  "catch_block sv b a err =
     (case handler_outcome (now_iso sv) b a err of
        Inl e' \<Rightarrow> (done_effects a, Some e')
      | Inr outcome \<Rightarrow>
          (let put = OutcomePut (handler_key b a outcome) outcome (status outcome, timestamp outcome)
           in if isErrorRetryable err then (done_effects a @ [put], Some err)
              else (done_effects a @ [put, Ack], None)))"

text \<open>The body of the loop of \<open>queue\<close> for one message: what is done, and the error that leaves
  \<open>queue\<close>, if one does.\<close>

definition process_message ::
  "Services \<Rightarrow> ReviewerEnv \<Rightarrow> WebhookQueueMessage \<Rightarrow> reviewer_effect list \<times> js_error option" where
  "process_message sv env b =
     (let a = try_block sv env b
      in case thrown a of
           None \<Rightarrow> (done_effects a, None)
         | Some err \<Rightarrow> catch_block sv b a err)"

text \<open>\<open>queue\<close>: the messages of the batch in order, each with the services it meets; an error
  that leaves the loop body ends the batch.\<close>

fun queue ::
  "ReviewerEnv \<Rightarrow> (Services \<times> WebhookQueueMessage) list \<Rightarrow>
   reviewer_effect list list \<times> js_error option" where
  "queue env [] = ([], None)"
| "queue env ((sv, b) # rest) =
     (case process_message sv env b of
        (effs, Some e) \<Rightarrow> ([effs], Some e)
      | (effs, None) \<Rightarrow> (case queue env rest of (more_effs, r) \<Rightarrow> (effs # more_effs, r)))"


text \<open>The shape marker of a merge-request payload.\<close>

definition mr_shape :: "jsval \<Rightarrow> bool" where
  "mr_shape op = (truthy (field op ''object_attributes'') \<and> field op ''object_kind'' = JStr ''merge_request'')"


text \<open>The provider of a task is supported by the publisher when it is one of the two and the
  task has the details of the matching pull or merge request; \<open>requestFor\<close> is the request
  the publisher then builds for a comment.\<close>

definition supported :: "'f ReviewTask \<Rightarrow> bool" where
  "supported t = (source t = ''github'' \<and> pullRequest t \<noteq> None
                  \<or> source t = ''gitlab'' \<and> mergeRequest t \<noteq> None)"

definition requestFor :: "ReviewerEnv \<Rightarrow> 'f ReviewTask \<Rightarrow> jsval \<Rightarrow> VcsRequest" where
  "requestFor env t =
     (if source t = ''github'' \<and> pullRequest t \<noteq> None
      then github_request env (the (pullRequest t))
      else gitlab_request env (the (mergeRequest t)))"

text \<open>The key of the exception handler's put, as a function of the message. For a message
  whose task has been built, the event id stands where the key of the \<^verbatim>\<open>try\<close> block has the
  provider; for a message whose normalisation throws, the key is made from the raw
  payload.\<close>

definition handlerReviewId :: "'f ReviewTask \<Rightarrow> jsval \<Rightarrow> string" where
  "handlerReviewId t op =
     ''review:'' @ eventId t @ '':'' @ to_str (fullName (repository t)) @ '':''
       @ to_str (or_else (task_number t) (or_else (task_iid t)
            (or_else (field (field op ''pull_request'') ''number'')
            (or_else (field (field op ''object_attributes'') ''iid'')
                     (JStr ''unknown_pr_mr'')))))
       @ '':'' @ eventId t"

definition handlerKey :: "WebhookQueueMessage \<Rightarrow> string" where
  "handlerKey b =
     (case normalize b of
        Inr t \<Rightarrow> handlerReviewId t (m_originalPayload b)
      | Inl e \<Rightarrow>
          ''review:'' @ (if m_eventId b \<noteq> [] then m_eventId b else ''unknown_event'') @ '':''
            @ to_str (or_else (field (field (m_originalPayload b) ''repository'') ''full_name'')
                     (or_else (field (field (m_originalPayload b) ''project'') ''path_with_namespace'')
                              (JStr ''unknown/repo'')))
            @ '':''
            @ to_str (or_else (field (field (m_originalPayload b) ''pull_request'') ''number'')
                     (or_else (field (field (m_originalPayload b) ''object_attributes'') ''iid'')
                              (JStr ''unknown_pr_mr'')))
            @ '':'' @ (if m_eventId b \<noteq> [] then m_eventId b else ''unknown_event''))"



text \<open>What a run of the \<^verbatim>\<open>try\<close> block leaves behind once the task \<open>t\<close> is built: the task,
  an outcome (if any) that names the task's event and repository, and either the comments
  posted, the put under the key of the \<^verbatim>\<open>try\<close> block and the acknowledgement, with nothing
  thrown, or an error thrown with comments posted (none, some or all) and the put made or
  not.\<close>

definition run_shape :: "jsval ReviewTask \<Rightarrow> Attempt \<Rightarrow> bool" where
  "run_shape t a =
     (currentTask a = Some t \<and>
      (\<forall>outcome. reviewOutcome a = Some outcome \<longrightarrow>
          taskId outcome = eventId t \<and> o_repository outcome = fullName (repository t)) \<and>
      (\<exists>posts outcome.
          (thrown a = None \<and>
           done_effects a = as_posts posts
             @ [OutcomePut (reviewId t) outcome (status outcome, timestamp outcome), Ack])
        \<or> (thrown a \<noteq> None \<and>
           (done_effects a = as_posts posts \<or>
            done_effects a = as_posts posts
             @ [OutcomePut (reviewId t) outcome (status outcome, timestamp outcome)]))))"

section \<open>Evaluating expressions that do not throw\<close>

lemma truthy_not_nullish: "truthy v \<Longrightarrow> \<not> nullish v"
  by (cases v) auto

lemma dot_Inr: "\<not> nullish v \<Longrightarrow> dot (Inr v) k = Inr (field v k)"
  by (simp add: dot_def js_bind_def get_prop_def)

lemma dot_Inr_nullish: "nullish v \<Longrightarrow> \<exists>e. dot (Inr v) k = Inl e"
  by (simp add: dot_def js_bind_def get_prop_def)

lemma qdot_Inr: "qdot (Inr v) k = Inr (field v k)"
  by (cases v) (simp_all add: qdot_def js_bind_def get_prop_def)

lemma js_and_Inr: "js_and (Inr x) b = (if truthy x then b else Inr x)"
  by (simp add: js_and_def js_bind_def)

lemma js_or_Inr: "js_or (Inr x) b = (if truthy x then Inr x else b)"
  by (simp add: js_or_def js_bind_def)

lemma js_if_Inr: "js_if (Inr x) t e = (if truthy x then t else e)"
  by (simp add: js_if_def js_bind_def)

lemma js_bind_Inr: "js_bind (Inr x) f = f x"
  by (simp add: js_bind_def)

lemma strict_eq_Inr: "strict_eq_str (Inr v) s = Inr (JBool (v = JStr s))"
  by (simp add: strict_eq_str_def js_bind_def)

lemmas js_simps = dot_Inr qdot_Inr js_and_Inr js_or_Inr js_if_Inr js_bind_Inr strict_eq_Inr truthy_not_nullish

section \<open>Properties of verifySignature\<close>

lemma split_on_no_sep: "c \<notin> set a \<Longrightarrow> split_on c a = [a]"
  by (induction a) auto

lemma split_on_append: "c \<notin> set a \<Longrightarrow> split_on c (a @ c # r) = a # split_on c r"
  by (induction a) auto

lemma hex_digit_in: "d < 16 \<Longrightarrow> hex_digit d \<in> set ''0123456789abcdef''"
  unfolding hex_digit_def by (rule nth_mem) simp

lemma hex_digit_not_eq: "d < 16 \<Longrightarrow> hex_digit d \<noteq> CHR ''=''"
  using hex_digit_in [of d] by auto

lemma unat_byte_div: "unat (b :: 8 word) div 16 < 16"
proof -
  have "unat b < 2 ^ 8" using unsigned_less [of b] by simp
  then show ?thesis by simp
qed

lemma byte_hex_no_eq: "CHR ''='' \<notin> set (byte_hex b)"
  using unat_byte_div [of b] hex_digit_not_eq [of "unat b"] hex_digit_not_eq [of "unat b div 16"]
    hex_digit_not_eq [of "unat b mod 16"]
  by (auto simp: byte_hex_def Let_def)

lemma hex_no_eq: "CHR ''='' \<notin> set (computedSignatureHex mac)"
  by (auto simp: computedSignatureHex_def byte_hex_no_eq)

lemma verify_github_iff:
  "verifySignature pf hdrs env ''github'' body =
     (\<exists>sh rest. hdrs ''X-Hub-Signature-256'' = Some sh \<and> present (GITHUB_WEBHOOK_SECRET env) \<and>
        split_on CHR ''='' sh = ''sha256'' #
          computedSignatureHex (hmac_sha256 pf (the (GITHUB_WEBHOOK_SECRET env)) body) # rest)"
  by (auto simp: verifySignature_def split: option.splits list.splits)

lemma verify_gitlab_iff:
  "verifySignature pf hdrs env ''gitlab'' body =
     (\<exists>t. t \<noteq> [] \<and> hdrs ''X-Gitlab-Token'' = Some t \<and> GITLAB_WEBHOOK_SECRET env = Some t)"
  by (auto simp: verifySignature_def present_def split: option.splits)


text \<open>The header \<^verbatim>\<open>sha256=<digest>\<close> is accepted, and the body matters through its digest
  only: a body whose digest differs is rejected under the same header.\<close>

lemma verify_body_digest:
  assumes "verifySignature pf hdrs env ''github'' body"
    and "computedSignatureHex (hmac_sha256 pf (the (GITHUB_WEBHOOK_SECRET env)) body')
         \<noteq> computedSignatureHex (hmac_sha256 pf (the (GITHUB_WEBHOOK_SECRET env)) body)"
  shows "\<not> verifySignature pf hdrs env ''github'' body'"
  using assms by (auto simp: verify_github_iff)

lemma verify_exact_header:
  assumes "present (GITHUB_WEBHOOK_SECRET env)"
    and "hdrs ''X-Hub-Signature-256'' =
           Some (''sha256='' @ computedSignatureHex (hmac_sha256 pf (the (GITHUB_WEBHOOK_SECRET env)) body))"
  shows "verifySignature pf hdrs env ''github'' body"
proof -
  let ?hex = "computedSignatureHex (hmac_sha256 pf (the (GITHUB_WEBHOOK_SECRET env)) body)"
  have "split_on CHR ''='' (''sha256'' @ CHR ''='' # ?hex) = ''sha256'' # split_on CHR ''='' ?hex"
    by (rule split_on_append) simp
  moreover have "split_on CHR ''='' ?hex = [?hex]"
    by (rule split_on_no_sep) (rule hex_no_eq)
  ultimately have "split_on CHR ''='' (''sha256='' @ ?hex) = [''sha256'', ?hex]" by simp
  with assms show ?thesis by (simp add: verify_github_iff)
qed

text \<open>
  Claim C3 says that for provider A \<open>verifySignature\<close> returns true exactly when the header
  equals \<^verbatim>\<open>sha256=\<close> followed by the hex HMAC-SHA256 of the raw body under the configured
  secret. The source splits the header at every \<^verbatim>\<open>=\<close> and compares only the first two
  pieces, so a header that continues after the digest with \<^verbatim>\<open>=\<close> and any text is accepted
  as well.
\<close>

theorem verifySignature_trailing_segment:
  assumes "present (GITHUB_WEBHOOK_SECRET env)"
    and "hdrs ''X-Hub-Signature-256'' =
           Some (''sha256='' @ computedSignatureHex (hmac_sha256 pf (the (GITHUB_WEBHOOK_SECRET env)) body)
                 @ CHR ''='' # junk)"
  shows "verifySignature pf hdrs env ''github'' body"
proof -
  let ?hex = "computedSignatureHex (hmac_sha256 pf (the (GITHUB_WEBHOOK_SECRET env)) body)"
  have a: "split_on CHR ''='' (''sha256'' @ CHR ''='' # (?hex @ CHR ''='' # junk))
           = ''sha256'' # split_on CHR ''='' (?hex @ CHR ''='' # junk)"
    by (rule split_on_append) simp
  have b: "split_on CHR ''='' (?hex @ CHR ''='' # junk) = ?hex # split_on CHR ''='' junk"
    by (rule split_on_append) (rule hex_no_eq)
  from a b have "split_on CHR ''='' (''sha256='' @ ?hex @ CHR ''='' # junk)
           = ''sha256'' # ?hex # split_on CHR ''='' junk" by simp
  with assms show ?thesis
    by (simp add: verifySignature_def)
qed


theorem verifySignature_trailing_segment_witness:
  "verifySignature
      \<lparr> hmac_sha256 = (\<lambda>k m. [0xde, 0xad]),
        json_parse = (\<lambda>s. Inl ''Unexpected token''),
        date_now = 1700000000000, randomUUID = ''u1'' \<rparr>
      [''X-Hub-Signature-256'' \<mapsto> ''sha256=dead=anything'']
      \<lparr> PROCESSED_EVENTS_KV_get = (\<lambda>k. Inr None),
        PROCESSED_EVENTS_KV_put = (\<lambda>k v ttl. None),
        REVIEW_TASKS_QUEUE_send = (\<lambda>t. None),
        GITHUB_WEBHOOK_SECRET = Some ''s3cret'', GITLAB_WEBHOOK_SECRET = None \<rparr>
      ''github'' ''{}''"
proof -
  have hex: "computedSignatureHex [0xde, 0xad] = ''dead''"
    by (simp add: computedSignatureHex_def byte_hex_def hex_digit_def)
  show ?thesis
    by (rule verifySignature_trailing_segment [where junk = "''anything''"])
       (simp_all add: present_def hex)
qed

section \<open>Properties of generateEventId\<close>

lemma gh_pr: "\<not> nullish p \<Longrightarrow>
  js_if (gh_pr_cond p) (return_id (gh_pr_id p)) rest =
  (if fst (rule_gh_pr p) then Inr (Some (snd (rule_gh_pr p))) else rest)"
  by (simp add: gh_pr_cond_def gh_pr_id_def rule_gh_pr_def return_id_def or_else_def js_simps)

lemma gh_push: "\<not> nullish p \<Longrightarrow>
  js_if (gh_push_cond p) (return_id (gh_push_id p)) rest =
  (if fst (rule_gh_push p) then Inr (Some (snd (rule_gh_push p))) else rest)"
  by (simp add: gh_push_cond_def gh_push_id_def rule_gh_push_def return_id_def or_else_def js_simps)

lemma gh_comment: "\<not> nullish p \<Longrightarrow>
  js_if (gh_comment_cond p) (return_id (gh_comment_id p)) rest =
  (if fst (rule_gh_comment p) then Inr (Some (snd (rule_gh_comment p))) else rest)"
  by (simp add: gh_comment_cond_def gh_comment_id_def rule_gh_comment_def return_id_def or_else_def js_simps)

lemma gl_mr: "\<not> nullish p \<Longrightarrow>
  js_if (gl_mr_cond p) (return_id (gl_mr_id p)) rest =
  (if fst (rule_gl_mr p) then Inr (Some (snd (rule_gl_mr p))) else rest)"
  by (simp add: gl_mr_cond_def gl_mr_id_def rule_gl_mr_def return_id_def or_else_def js_simps)

lemma gl_push: "\<not> nullish p \<Longrightarrow>
  js_if (gl_push_cond p) (return_id (gl_push_id p)) rest =
  (if fst (rule_gl_push p) then Inr (Some (snd (rule_gl_push p))) else rest)"
  by (simp add: gl_push_cond_def gl_push_id_def rule_gl_push_def return_id_def or_else_def js_simps)

lemma gl_note: "\<not> nullish p \<Longrightarrow>
  js_if (gl_note_cond p) (return_id (gl_note_id p)) rest =
  (if fst (rule_gl_note p) then Inr (Some (snd (rule_gl_note p))) else rest)"
  by (simp add: gl_note_cond_def gl_note_id_def rule_gl_note_def return_id_def or_else_def js_simps)

lemma js_if_Inl: "js_if (Inl e) t r = Inl e"
  by (simp add: js_if_def js_bind_def)

lemma js_and_Inl: "js_and (Inl e) b = Inl e"
  by (simp add: js_and_def js_bind_def)

lemma strict_eq_Inl: "strict_eq_str (Inl e) s = Inl e"
  by (simp add: strict_eq_str_def js_bind_def)

lemma dot_nullish: "nullish v \<Longrightarrow> dot (Inr v) k = Inl (TypeError (''Cannot read properties of undefined or null (reading '' @ k @ '')''))"
  by (simp add: dot_def js_bind_def get_prop_def)

lemma try_github_nullish: "nullish p \<Longrightarrow> \<exists>e. generateEventId_try u ''github'' p h = Inl e"
  by (simp add: generateEventId_try_def gh_pr_cond_def dot_nullish js_and_Inl js_if_Inl)

lemma try_gitlab_nullish: "nullish p \<Longrightarrow> \<not> present (h ''X-Gitlab-Event-UUID'') \<Longrightarrow>
   \<exists>e. generateEventId_try u ''gitlab'' p h = Inl e"
  by (simp add: generateEventId_try_def gl_mr_cond_def dot_nullish js_and_Inl js_if_Inl strict_eq_Inl)

lemma try_github: "\<not> nullish p \<Longrightarrow> generateEventId_try u ''github'' p h =
   Inr (Some (first_match [rule_gh_pr p, rule_gh_push p, rule_gh_comment p,
                 rule_delivery ''gh_delivery_'' ''X-GitHub-Delivery'' h] (''gh_unknown_'' @ u)))"
  by (cases "rule_gh_pr p"; cases "rule_gh_push p"; cases "rule_gh_comment p")
     (simp add: generateEventId_try_def gh_pr gh_push gh_comment rule_delivery_def)

lemma try_gitlab: "\<not> nullish p \<Longrightarrow> \<not> present (h ''X-Gitlab-Event-UUID'') \<Longrightarrow> generateEventId_try u ''gitlab'' p h =
   Inr (Some (first_match [rule_gl_mr p, rule_gl_push p, rule_gl_note p] (''gl_unknown_'' @ u)))"
  by (cases "rule_gl_mr p"; cases "rule_gl_push p"; cases "rule_gl_note p")
     (simp add: generateEventId_try_def gl_mr gl_push gl_note)

lemma try_gitlab_delivery: "present (h ''X-Gitlab-Event-UUID'') \<Longrightarrow> generateEventId_try u ''gitlab'' p h =
   Inr (Some (''gl_delivery_'' @ the (h ''X-Gitlab-Event-UUID'')))"
  by (simp add: generateEventId_try_def)

lemma try_other: "src \<noteq> ''github'' \<Longrightarrow> src \<noteq> ''gitlab'' \<Longrightarrow> generateEventId_try u src p h = Inr None"
  by (simp add: generateEventId_try_def)

lemma gen_eq_identify: "generateEventId uuid src p h = identify uuid src p h"
proof (cases "src = ''github''")
  case True
  show ?thesis
  proof (cases "nullish p")
    case True
    with try_github_nullish [of p uuid h] \<open>src = ''github''\<close> show ?thesis
      by (auto simp: generateEventId_def identify_def)
  next
    case False
    with try_github [of p uuid h] \<open>src = ''github''\<close> show ?thesis
      by (simp add: generateEventId_def identify_def)
  qed
next
  case ngh: False
  show ?thesis
  proof (cases "src = ''gitlab''")
    case True
    show ?thesis
    proof (cases "present (h ''X-Gitlab-Event-UUID'')")
      case True
      with try_gitlab_delivery [of h uuid p] \<open>src = ''gitlab''\<close> show ?thesis
        by (simp add: generateEventId_def identify_def rule_delivery_def)
    next
      case np: False
      show ?thesis
      proof (cases "nullish p")
        case True
        with try_gitlab_nullish [of p h uuid] np \<open>src = ''gitlab''\<close> show ?thesis
          by (auto simp: generateEventId_def identify_def rule_delivery_def)
      next
        case False
        with try_gitlab [of p h uuid] np \<open>src = ''gitlab''\<close> show ?thesis
          by (simp add: generateEventId_def identify_def rule_delivery_def)
      qed
    qed
  next
    case False
    with ngh try_other [of src uuid p h] show ?thesis
      by (simp add: generateEventId_def identify_def)
  qed
qed




section \<open>Properties of the webhook handler\<close>

lemma first_match_nonempty:
  "\<forall>r \<in> set rules. snd r \<noteq> [] \<Longrightarrow> d \<noteq> [] \<Longrightarrow> first_match rules d \<noteq> []"
  by (induction rules d rule: first_match.induct) auto

lemma rule_ids_nonempty:
  "snd (rule_gh_pr p) \<noteq> []" "snd (rule_gh_push p) \<noteq> []" "snd (rule_gh_comment p) \<noteq> []"
  "snd (rule_gl_mr p) \<noteq> []" "snd (rule_gl_push p) \<noteq> []" "snd (rule_gl_note p) \<noteq> []"
  "snd (rule_delivery ''gh_delivery_'' n h) \<noteq> []" "snd (rule_delivery ''gl_delivery_'' n h) \<noteq> []"
  by (simp_all add: rule_gh_pr_def rule_gh_push_def rule_gh_comment_def rule_delivery_def
      rule_gl_mr_def rule_gl_push_def rule_gl_note_def)

lemma identify_nonempty: "identify uuid src p h = Some eid \<Longrightarrow> eid \<noteq> []"
proof -
  assume a: "identify uuid src p h = Some eid"
  have gh: "first_match [rule_gh_pr p, rule_gh_push p, rule_gh_comment p,
                 rule_delivery ''gh_delivery_'' ''X-GitHub-Delivery'' h] (''gh_unknown_'' @ uuid) \<noteq> []"
    by (rule first_match_nonempty) (simp_all add: rule_ids_nonempty)
  have gl: "first_match [rule_gl_mr p, rule_gl_push p, rule_gl_note p] (''gl_unknown_'' @ uuid) \<noteq> []"
    by (rule first_match_nonempty) (simp_all add: rule_ids_nonempty)
  have dl: "snd (rule_delivery ''gl_delivery_'' ''X-Gitlab-Event-UUID'' h) \<noteq> []"
    by (rule rule_ids_nonempty)
  from a gh gl dl show ?thesis
    unfolding identify_def by (auto split: if_splits)
qed

lemma generateEventId_nonempty: "generateEventId uuid src p h = Some eid \<Longrightarrow> eid \<noteq> []"
  using identify_nonempty [of uuid src p h eid] by (simp add: gen_eq_identify)

lemma fetch_admitted:
  "admitted pf env rq src payload eid \<Longrightarrow>
   fetch pf env rq = process_webhook pf env (req_headers rq) src (req_text rq) payload"
  by (auto simp: admitted_def fetch_def)

lemma pbs_nil: "put_before_send []"
  by (simp add: put_before_send_def)

lemma pbs_get: "put_before_send [KvGet k]"
  by (auto simp: put_before_send_def Cons_eq_append_conv)

lemma pbs_get_put: "put_before_send [KvGet k, KvPut k' v n]"
  by (auto simp: put_before_send_def Cons_eq_append_conv)

lemma pbs_all: "put_before_send [KvGet k, KvPut k v 3600,
    QueueSend \<lparr> q_source = s, q_eventId = k, originalPayload = p \<rparr>]"
  by (auto simp: put_before_send_def Cons_eq_append_conv)

lemma process_webhook_order: "put_before_send (snd (process_webhook pf env hdrs src raw payload))"
  by (auto simp: process_webhook_def Let_def pbs_nil pbs_get pbs_get_put pbs_all
      split: option.splits sum.splits)

lemma fetch_order: "put_before_send (snd (fetch pf env rq))"
  by (auto simp: fetch_def pbs_nil process_webhook_order split: option.splits sum.splits)

text \<open>
  Claim C1, as amended. For every POST webhook request that passes signature verification and
  yields an event id, if the dedup store's get on that event id returns a value that is
  neither \<^verbatim>\<open>null\<close> nor the empty string, the handler responds with the "already processed"
  status 202 carrying that event id, and the get is the only call it makes: no put on the
  store and no send on the queue.
\<close>

theorem fetch_dedup_hit:
  assumes "admitted pf env rq src payload eid"
    and "PROCESSED_EVENTS_KV_get env eid = Inr (Some v)"
    and "v \<noteq> []"
  shows "fetch pf env rq =
           (jsonResponse (JObj [(''message'', JStr ''Event already processed.''),
                                (''eventId'', JStr eid)]) 202,
            [KvGet eid])"
proof -
  from assms(1) have "eid \<noteq> []"
    by (auto simp: admitted_def dest: generateEventId_nonempty)
  moreover from assms(1) have "verifySignature pf (req_headers rq) env src (req_text rq)"
    and "generateEventId (randomUUID pf) src payload (req_headers rq) = Some eid"
    by (simp_all add: admitted_def)
  ultimately show ?thesis using assms(2,3)
    by (simp add: fetch_admitted [OF assms(1)] process_webhook_def present_def)
qed

theorem fetch_dedup_hit_witness:
  "admitted
      \<lparr> hmac_sha256 = (\<lambda>k m. []),
        json_parse = (\<lambda>s. if s = ''{}'' then Inr (JObj []) else Inl ''Unexpected token''),
        date_now = 1700000000000, randomUUID = ''u1'' \<rparr>
      \<lparr> PROCESSED_EVENTS_KV_get = (\<lambda>k. Inr (Some ''seen'')),
        PROCESSED_EVENTS_KV_put = (\<lambda>k v ttl. None),
        REVIEW_TASKS_QUEUE_send = (\<lambda>t. None),
        GITHUB_WEBHOOK_SECRET = None, GITLAB_WEBHOOK_SECRET = Some ''s3cret'' \<rparr>
      \<lparr> req_method = ''POST'', pathname = ''/webhook/gitlab'',
        req_headers = [''content-type'' \<mapsto> ''application/json'', ''X-Gitlab-Token'' \<mapsto> ''s3cret'',
                       ''X-Gitlab-Event-UUID'' \<mapsto> ''d7''],
        req_text = ''{}'' \<rparr>
      ''gitlab'' (JObj []) ''gl_delivery_d7''
   \<and> fetch
      \<lparr> hmac_sha256 = (\<lambda>k m. []),
        json_parse = (\<lambda>s. if s = ''{}'' then Inr (JObj []) else Inl ''Unexpected token''),
        date_now = 1700000000000, randomUUID = ''u1'' \<rparr>
      \<lparr> PROCESSED_EVENTS_KV_get = (\<lambda>k. Inr (Some ''seen'')),
        PROCESSED_EVENTS_KV_put = (\<lambda>k v ttl. None),
        REVIEW_TASKS_QUEUE_send = (\<lambda>t. None),
        GITHUB_WEBHOOK_SECRET = None, GITLAB_WEBHOOK_SECRET = Some ''s3cret'' \<rparr>
      \<lparr> req_method = ''POST'', pathname = ''/webhook/gitlab'',
        req_headers = [''content-type'' \<mapsto> ''application/json'', ''X-Gitlab-Token'' \<mapsto> ''s3cret'',
                       ''X-Gitlab-Event-UUID'' \<mapsto> ''d7''],
        req_text = ''{}'' \<rparr>
     = (jsonResponse (JObj [(''message'', JStr ''Event already processed.''),
                            (''eventId'', JStr ''gl_delivery_d7'')]) 202,
        [KvGet ''gl_delivery_d7''])"
proof -
  have adm: "admitted
      \<lparr> hmac_sha256 = (\<lambda>k m. []),
        json_parse = (\<lambda>s. if s = ''{}'' then Inr (JObj []) else Inl ''Unexpected token''),
        date_now = 1700000000000, randomUUID = ''u1'' \<rparr>
      \<lparr> PROCESSED_EVENTS_KV_get = (\<lambda>k. Inr (Some ''seen'')),
        PROCESSED_EVENTS_KV_put = (\<lambda>k v ttl. None),
        REVIEW_TASKS_QUEUE_send = (\<lambda>t. None),
        GITHUB_WEBHOOK_SECRET = None, GITLAB_WEBHOOK_SECRET = Some ''s3cret'' \<rparr>
      \<lparr> req_method = ''POST'', pathname = ''/webhook/gitlab'',
        req_headers = [''content-type'' \<mapsto> ''application/json'', ''X-Gitlab-Token'' \<mapsto> ''s3cret'',
                       ''X-Gitlab-Event-UUID'' \<mapsto> ''d7''],
        req_text = ''{}'' \<rparr>
      ''gitlab'' (JObj []) ''gl_delivery_d7''"
    by (simp add: admitted_def webhook_source_def verifySignature_def present_def
        generateEventId_def generateEventId_try_def)
  from fetch_dedup_hit [OF adm, of "''seen''"] adm show ?thesis
    by simp
qed

text \<open>
  Claim C1 as stated fails where the store returns the empty string: the value is not
  \<^verbatim>\<open>null\<close>, the handler tests it with \<^verbatim>\<open>if (existingEvent)\<close>, takes the event as new,
  records it and enqueues it.
\<close>

theorem fetch_dedup_hit_counterexample:
  "PROCESSED_EVENTS_KV_get
      \<lparr> PROCESSED_EVENTS_KV_get = (\<lambda>k. Inr (Some [])),
        PROCESSED_EVENTS_KV_put = (\<lambda>k v ttl. None),
        REVIEW_TASKS_QUEUE_send = (\<lambda>t. None),
        GITHUB_WEBHOOK_SECRET = None, GITLAB_WEBHOOK_SECRET = Some ''s3cret'' \<rparr>
      ''gl_delivery_d7'' = Inr (Some [])
   \<and> admitted
      \<lparr> hmac_sha256 = (\<lambda>k m. []),
        json_parse = (\<lambda>s. if s = ''{}'' then Inr (JObj []) else Inl ''Unexpected token''),
        date_now = 1700000000000, randomUUID = ''u1'' \<rparr>
      \<lparr> PROCESSED_EVENTS_KV_get = (\<lambda>k. Inr (Some [])),
        PROCESSED_EVENTS_KV_put = (\<lambda>k v ttl. None),
        REVIEW_TASKS_QUEUE_send = (\<lambda>t. None),
        GITHUB_WEBHOOK_SECRET = None, GITLAB_WEBHOOK_SECRET = Some ''s3cret'' \<rparr>
      \<lparr> req_method = ''POST'', pathname = ''/webhook/gitlab'',
        req_headers = [''content-type'' \<mapsto> ''application/json'', ''X-Gitlab-Token'' \<mapsto> ''s3cret'',
                       ''X-Gitlab-Event-UUID'' \<mapsto> ''d7''],
        req_text = ''{}'' \<rparr>
      ''gitlab'' (JObj []) ''gl_delivery_d7''
   \<and> fetch
      \<lparr> hmac_sha256 = (\<lambda>k m. []),
        json_parse = (\<lambda>s. if s = ''{}'' then Inr (JObj []) else Inl ''Unexpected token''),
        date_now = 1700000000000, randomUUID = ''u1'' \<rparr>
      \<lparr> PROCESSED_EVENTS_KV_get = (\<lambda>k. Inr (Some [])),
        PROCESSED_EVENTS_KV_put = (\<lambda>k v ttl. None),
        REVIEW_TASKS_QUEUE_send = (\<lambda>t. None),
        GITHUB_WEBHOOK_SECRET = None, GITLAB_WEBHOOK_SECRET = Some ''s3cret'' \<rparr>
      \<lparr> req_method = ''POST'', pathname = ''/webhook/gitlab'',
        req_headers = [''content-type'' \<mapsto> ''application/json'', ''X-Gitlab-Token'' \<mapsto> ''s3cret'',
                       ''X-Gitlab-Event-UUID'' \<mapsto> ''d7''],
        req_text = ''{}'' \<rparr>
     = (jsonResponse
          (JObj [(''message'', JStr ''Webhook from gitlab (Event ID: gl_delivery_d7) received, validated, and enqueued successfully.''),
                 (''eventId'', JStr ''gl_delivery_d7'')]) 200,
        [KvGet ''gl_delivery_d7'', KvPut ''gl_delivery_d7'' (dedup_record 1700000000000) 3600,
         QueueSend \<lparr> q_source = ''gitlab'', q_eventId = ''gl_delivery_d7'', originalPayload = JObj [] \<rparr>])"
  by (simp add: admitted_def webhook_source_def verifySignature_def present_def
      generateEventId_def generateEventId_try_def fetch_def process_webhook_def)

text \<open>
  Claim C2, as amended. For every POST webhook request that passes verification, yields an
  event id and misses the dedup store, and for which neither the put on the store nor the
  send on the queue throws, the handler makes exactly one put of a dedup record with a
  3600-second expiry and then exactly one queue send carrying source, event id and original
  payload, and answers 200 with the event id. For every request whatsoever, a task is never
  sent without the dedup record for its event id having been put before it in that
  invocation.
\<close>

theorem fetch_dedup_miss:
  assumes "admitted pf env rq src payload eid"
    and "PROCESSED_EVENTS_KV_get env eid = Inr None"
    and "PROCESSED_EVENTS_KV_put env eid (dedup_record (date_now pf)) 3600 = None"
    and "REVIEW_TASKS_QUEUE_send env \<lparr> q_source = src, q_eventId = eid, originalPayload = payload \<rparr> = None"
  shows "fetch pf env rq =
           (jsonResponse
              (JObj [(''message'', JStr (''Webhook from '' @ src @ '' (Event ID: '' @ eid
                        @ '') received, validated, and enqueued successfully.'')),
                     (''eventId'', JStr eid)]) 200,
            [KvGet eid, KvPut eid (dedup_record (date_now pf)) 3600,
             QueueSend \<lparr> q_source = src, q_eventId = eid, originalPayload = payload \<rparr>])
         \<and> put_before_send (snd (fetch pf' env' rq'))"
proof -
  from assms(1) have "eid \<noteq> []"
    by (auto simp: admitted_def dest: generateEventId_nonempty)
  moreover from assms(1) have "verifySignature pf (req_headers rq) env src (req_text rq)"
    and "generateEventId (randomUUID pf) src payload (req_headers rq) = Some eid"
    by (simp_all add: admitted_def)
  ultimately show ?thesis using assms(2,3,4)
    by (simp add: fetch_admitted [OF assms(1)] process_webhook_def present_def Let_def fetch_order)
qed

theorem fetch_dedup_miss_witness:
  "admitted
      \<lparr> hmac_sha256 = (\<lambda>k m. []),
        json_parse = (\<lambda>s. if s = ''{}'' then Inr (JObj []) else Inl ''Unexpected token''),
        date_now = 1700000000000, randomUUID = ''u1'' \<rparr>
      \<lparr> PROCESSED_EVENTS_KV_get = (\<lambda>k. Inr None),
        PROCESSED_EVENTS_KV_put = (\<lambda>k v ttl. None),
        REVIEW_TASKS_QUEUE_send = (\<lambda>t. None),
        GITHUB_WEBHOOK_SECRET = None, GITLAB_WEBHOOK_SECRET = Some ''s3cret'' \<rparr>
      \<lparr> req_method = ''POST'', pathname = ''/webhook/gitlab'',
        req_headers = [''content-type'' \<mapsto> ''application/json'', ''X-Gitlab-Token'' \<mapsto> ''s3cret'',
                       ''X-Gitlab-Event-UUID'' \<mapsto> ''d7''],
        req_text = ''{}'' \<rparr>
      ''gitlab'' (JObj []) ''gl_delivery_d7''
   \<and> fetch
      \<lparr> hmac_sha256 = (\<lambda>k m. []),
        json_parse = (\<lambda>s. if s = ''{}'' then Inr (JObj []) else Inl ''Unexpected token''),
        date_now = 1700000000000, randomUUID = ''u1'' \<rparr>
      \<lparr> PROCESSED_EVENTS_KV_get = (\<lambda>k. Inr None),
        PROCESSED_EVENTS_KV_put = (\<lambda>k v ttl. None),
        REVIEW_TASKS_QUEUE_send = (\<lambda>t. None),
        GITHUB_WEBHOOK_SECRET = None, GITLAB_WEBHOOK_SECRET = Some ''s3cret'' \<rparr>
      \<lparr> req_method = ''POST'', pathname = ''/webhook/gitlab'',
        req_headers = [''content-type'' \<mapsto> ''application/json'', ''X-Gitlab-Token'' \<mapsto> ''s3cret'',
                       ''X-Gitlab-Event-UUID'' \<mapsto> ''d7''],
        req_text = ''{}'' \<rparr>
     = (jsonResponse
          (JObj [(''message'', JStr ''Webhook from gitlab (Event ID: gl_delivery_d7) received, validated, and enqueued successfully.''),
                 (''eventId'', JStr ''gl_delivery_d7'')]) 200,
        [KvGet ''gl_delivery_d7'', KvPut ''gl_delivery_d7'' (dedup_record 1700000000000) 3600,
         QueueSend \<lparr> q_source = ''gitlab'', q_eventId = ''gl_delivery_d7'', originalPayload = JObj [] \<rparr>])"
proof -
  have adm: "admitted
      \<lparr> hmac_sha256 = (\<lambda>k m. []),
        json_parse = (\<lambda>s. if s = ''{}'' then Inr (JObj []) else Inl ''Unexpected token''),
        date_now = 1700000000000, randomUUID = ''u1'' \<rparr>
      \<lparr> PROCESSED_EVENTS_KV_get = (\<lambda>k. Inr None),
        PROCESSED_EVENTS_KV_put = (\<lambda>k v ttl. None),
        REVIEW_TASKS_QUEUE_send = (\<lambda>t. None),
        GITHUB_WEBHOOK_SECRET = None, GITLAB_WEBHOOK_SECRET = Some ''s3cret'' \<rparr>
      \<lparr> req_method = ''POST'', pathname = ''/webhook/gitlab'',
        req_headers = [''content-type'' \<mapsto> ''application/json'', ''X-Gitlab-Token'' \<mapsto> ''s3cret'',
                       ''X-Gitlab-Event-UUID'' \<mapsto> ''d7''],
        req_text = ''{}'' \<rparr>
      ''gitlab'' (JObj []) ''gl_delivery_d7''"
    by (simp add: admitted_def webhook_source_def verifySignature_def present_def
        generateEventId_def generateEventId_try_def)
  from fetch_dedup_miss [OF adm] adm show ?thesis
    by simp
qed

text \<open>
  Claim C2 as stated fails where the put on the store throws: the handler's \<^verbatim>\<open>catch\<close> answers
  500 and nothing is sent.
\<close>

theorem fetch_dedup_miss_counterexample:
  "admitted
      \<lparr> hmac_sha256 = (\<lambda>k m. []),
        json_parse = (\<lambda>s. if s = ''{}'' then Inr (JObj []) else Inl ''Unexpected token''),
        date_now = 1700000000000, randomUUID = ''u1'' \<rparr>
      \<lparr> PROCESSED_EVENTS_KV_get = (\<lambda>k. Inr None),
        PROCESSED_EVENTS_KV_put = (\<lambda>k v ttl. Some (HostError False ''KV PUT failed: 429 Too Many Requests'')),
        REVIEW_TASKS_QUEUE_send = (\<lambda>t. None),
        GITHUB_WEBHOOK_SECRET = None, GITLAB_WEBHOOK_SECRET = Some ''s3cret'' \<rparr>
      \<lparr> req_method = ''POST'', pathname = ''/webhook/gitlab'',
        req_headers = [''content-type'' \<mapsto> ''application/json'', ''X-Gitlab-Token'' \<mapsto> ''s3cret'',
                       ''X-Gitlab-Event-UUID'' \<mapsto> ''d7''],
        req_text = ''{}'' \<rparr>
      ''gitlab'' (JObj []) ''gl_delivery_d7''
   \<and> PROCESSED_EVENTS_KV_get
      \<lparr> PROCESSED_EVENTS_KV_get = (\<lambda>k. Inr None),
        PROCESSED_EVENTS_KV_put = (\<lambda>k v ttl. Some (HostError False ''KV PUT failed: 429 Too Many Requests'')),
        REVIEW_TASKS_QUEUE_send = (\<lambda>t. None),
        GITHUB_WEBHOOK_SECRET = None, GITLAB_WEBHOOK_SECRET = Some ''s3cret'' \<rparr>
      ''gl_delivery_d7'' = Inr None
   \<and> fetch
      \<lparr> hmac_sha256 = (\<lambda>k m. []),
        json_parse = (\<lambda>s. if s = ''{}'' then Inr (JObj []) else Inl ''Unexpected token''),
        date_now = 1700000000000, randomUUID = ''u1'' \<rparr>
      \<lparr> PROCESSED_EVENTS_KV_get = (\<lambda>k. Inr None),
        PROCESSED_EVENTS_KV_put = (\<lambda>k v ttl. Some (HostError False ''KV PUT failed: 429 Too Many Requests'')),
        REVIEW_TASKS_QUEUE_send = (\<lambda>t. None),
        GITHUB_WEBHOOK_SECRET = None, GITLAB_WEBHOOK_SECRET = Some ''s3cret'' \<rparr>
      \<lparr> req_method = ''POST'', pathname = ''/webhook/gitlab'',
        req_headers = [''content-type'' \<mapsto> ''application/json'', ''X-Gitlab-Token'' \<mapsto> ''s3cret'',
                       ''X-Gitlab-Event-UUID'' \<mapsto> ''d7''],
        req_text = ''{}'' \<rparr>
     = (processing_error (HostError False ''KV PUT failed: 429 Too Many Requests''),
        [KvGet ''gl_delivery_d7'', KvPut ''gl_delivery_d7'' (dedup_record 1700000000000) 3600])"
  by (simp add: admitted_def webhook_source_def verifySignature_def present_def
      generateEventId_def generateEventId_try_def fetch_def process_webhook_def)

section \<open>Properties of callLLM\<close>

text \<open>\<open>callLLM\<close> is a function to \<^verbatim>\<open>LLMResponse\<close>: every operation that can throw lies in
  a \<^verbatim>\<open>try\<close> whose handler returns a result. The classification of the outcomes:\<close>

lemma callLLM_network_error:
  "net (llmRequest env task) = NetworkError e \<Longrightarrow>
   \<not> success (callLLM parse net task env) \<and> isRetryable (callLLM parse net task env) = Some True"
  by (simp add: callLLM_def)

lemma callLLM_http_error:
  "net (llmRequest env task) = HttpResponse st rt \<Longrightarrow> \<not> response_ok st \<Longrightarrow>
   \<not> success (callLLM parse net task env) \<and>
   isRetryable (callLLM parse net task env) = Some (st \<ge> 500)"
  by (simp add: callLLM_def)

lemma callLLM_5xx:
  "net (llmRequest env task) = HttpResponse st rt \<Longrightarrow> st \<ge> 500 \<Longrightarrow>
   \<not> success (callLLM parse net task env) \<and> isRetryable (callLLM parse net task env) = Some True"
  using callLLM_http_error [of net env task st rt parse] by (simp add: response_ok_def)

lemma callLLM_4xx:
  "net (llmRequest env task) = HttpResponse st rt \<Longrightarrow> 400 \<le> st \<Longrightarrow> st < 500 \<Longrightarrow>
   \<not> success (callLLM parse net task env) \<and> isRetryable (callLLM parse net task env) = Some False"
  using callLLM_http_error [of net env task st rt parse] by (simp add: response_ok_def)

lemma callLLM_outer_not_json:
  "net (llmRequest env task) = HttpResponse st rt \<Longrightarrow> response_ok st \<Longrightarrow> parse rt = Inl m \<Longrightarrow>
   \<not> success (callLLM parse net task env) \<and> isRetryable (callLLM parse net task env) = Some True"
  by (simp add: callLLM_def envelope_try_def)

lemma index0_nullish: "nullish v \<Longrightarrow> index0 v = JUndefined"
  by (cases v) auto

lemma envelope_content:
  "\<not> nullish j \<Longrightarrow>
   qdot (qdot (js_bind (dot (Inr j) ''choices'')
                 (\<lambda>choices. Inr (if nullish choices then JUndefined else index0 choices)))
              ''message'') ''content'' = Inr (content_of j)"
  by (simp add: content_of_def js_simps index0_nullish)

lemma content_try_retryable:
  "content_try parse j str = Inr r \<Longrightarrow> isRetryable r = Some False"
  by (auto simp: content_try_def js_bind_def dot_def get_prop_def spread_content_def
      split: sum.splits jsval.splits if_splits)

lemma content_try_fail:
  "content_try parse j str = Inr r \<Longrightarrow>
   (\<forall>c. parse str = Inr c \<longrightarrow> (\<forall>b. field c ''success'' \<noteq> JBool b)) \<Longrightarrow> \<not> success r"
  by (auto simp: content_try_def js_bind_def dot_def get_prop_def spread_content_def
      split: sum.splits jsval.splits if_splits)

lemma envelope_try_inner:
  assumes "parse rt = Inr j" "\<not> nullish j"
  shows "\<exists>r. envelope_try parse rt = Inr r \<and> isRetryable r = Some False \<and>
     (((\<forall>s. content_of j \<noteq> JStr s) \<or>
       (\<exists>s. content_of j = JStr s \<and> (\<forall>c. parse s = Inr c \<longrightarrow> (\<forall>b. field c ''success'' \<noteq> JBool b))))
      \<longrightarrow> \<not> success r)"
proof (cases "content_of j")
  case (JStr s)
  show ?thesis
  proof (cases "content_try parse j s")
    case (Inl e)
    with JStr assms show ?thesis
      by (simp add: envelope_try_def envelope_content js_bind_Inr)
  next
    case (Inr r)
    with JStr assms content_try_retryable [OF Inr] content_try_fail [OF Inr] show ?thesis
      by (auto simp add: envelope_try_def envelope_content js_bind_Inr)
  qed
qed (use assms in \<open>simp_all add: envelope_try_def envelope_content js_bind_Inr\<close>)

lemma callLLM_inner:
  assumes "net (llmRequest env task) = HttpResponse st rt" "response_ok st"
    and "parse rt = Inr j" "\<not> nullish j"
    and "(\<forall>s. content_of j \<noteq> JStr s) \<or>
       (\<exists>s. content_of j = JStr s \<and> (\<forall>c. parse s = Inr c \<longrightarrow> (\<forall>b. field c ''success'' \<noteq> JBool b)))"
  shows "\<not> success (callLLM parse net task env) \<and> isRetryable (callLLM parse net task env) = Some False"
proof -
  from envelope_try_inner [of parse rt j] assms(3,4,5)
  obtain r where "envelope_try parse rt = Inr r" "isRetryable r = Some False" "\<not> success r"
    by blast
  with assms(1,2) show ?thesis by (simp add: callLLM_def)
qed


text \<open>
  Claim C5 says that a 2xx response whose outer body parses, but whose inner content string
  is absent, gives \<open>success\<close> false and \<open>retryable\<close> false. The body \<^verbatim>\<open>null\<close> is valid
  JSON without a content string; reading \<^verbatim>\<open>choices\<close> of it throws inside the \<^verbatim>\<open>try\<close> that
  is meant for the parse error, and the result is marked retryable.
\<close>

theorem callLLM_null_envelope:
  assumes "net (llmRequest env task) = HttpResponse st rt" "response_ok st"
    and "parse rt = Inr JNull"
  shows "\<not> success (callLLM parse net task env) \<and> isRetryable (callLLM parse net task env) = Some True"
  using assms
  by (simp add: callLLM_def envelope_try_def dot_def qdot_def js_bind_def get_prop_def)

theorem callLLM_null_envelope_witness:
  "\<not> success
     (callLLM
      (\<lambda>s. if s = ''null'' then Inr JNull else Inl ''Unexpected token'')
      (\<lambda>rq. HttpResponse 200 ''null'')
      \<lparr> repository = \<lparr> fullName = JStr ''o/r'', repo_id = JNum 1, defaultBranch = JStr ''main'' \<rparr>,
        pullRequest = None, mergeRequest = None, source = ''github'', eventId = ''e1'',
        reviewType = JStr ''general'', filesToReview = [] \<rparr>
      \<lparr> LLM_API_KEY = ''k'', GITHUB_TOKEN = ''g'', GITLAB_TOKEN = ''l'',
        LLM_ENDPOINT = ''https://llm.example/v1/chat/completions'', LLM_MODEL_NAME = None \<rparr>)
   \<and> isRetryable
     (callLLM
      (\<lambda>s. if s = ''null'' then Inr JNull else Inl ''Unexpected token'')
      (\<lambda>rq. HttpResponse 200 ''null'')
      \<lparr> repository = \<lparr> fullName = JStr ''o/r'', repo_id = JNum 1, defaultBranch = JStr ''main'' \<rparr>,
        pullRequest = None, mergeRequest = None, source = ''github'', eventId = ''e1'',
        reviewType = JStr ''general'', filesToReview = [] \<rparr>
      \<lparr> LLM_API_KEY = ''k'', GITHUB_TOKEN = ''g'', GITLAB_TOKEN = ''l'',
        LLM_ENDPOINT = ''https://llm.example/v1/chat/completions'', LLM_MODEL_NAME = None \<rparr>) = Some True"
  using callLLM_null_envelope [of
      "(\<lambda>rq. HttpResponse 200 ''null'')"
      "\<lparr> LLM_API_KEY = ''k'', GITHUB_TOKEN = ''g'', GITLAB_TOKEN = ''l'',
        LLM_ENDPOINT = ''https://llm.example/v1/chat/completions'', LLM_MODEL_NAME = None \<rparr>"
      "\<lparr> repository = \<lparr> fullName = JStr ''o/r'', repo_id = JNum 1, defaultBranch = JStr ''main'' \<rparr>,
        pullRequest = None, mergeRequest = None, source = ''github'', eventId = ''e1'',
        reviewType = JStr ''general'', filesToReview = [] \<rparr>"
      200 "''null''"
      "(\<lambda>s. if s = ''null'' then Inr JNull else Inl ''Unexpected token'')"]
  by (simp add: response_ok_def)

section \<open>Properties of the task normalisation\<close>

lemma js_bind_Inl: "js_bind (Inl e) f = Inl e"
  by (simp add: js_bind_def)

lemma dot_Inl: "dot (Inl e) k = Inl e"
  by (simp add: dot_def js_bind_def)

lemma qdot_Inl: "qdot (Inl e) k = Inl e"
  by (simp add: qdot_def js_bind_def)

lemma js_or_Inl: "js_or (Inl e) b = Inl e"
  by (simp add: js_or_def js_bind_def)

lemmas js_throw_simps = js_bind_Inl dot_Inl qdot_Inl js_or_Inl js_and_Inl js_if_Inl strict_eq_Inl dot_nullish

lemma normalize_nullish: "nullish (m_originalPayload b) \<Longrightarrow> \<exists>e. normalize b = Inl e"
  by (simp add: normalize_def Let_def js_throw_simps)

lemma task_pullRequest_eq:
  "\<not> nullish op \<Longrightarrow> task_pullRequest op =
     Inr (if truthy (field op ''pull_request'') then
            Some \<lparr> pr_id = field (field op ''pull_request'') ''id'',
                   pr_number = field (field op ''pull_request'') ''number'',
                   pr_headSha = or_else (field (field (field op ''pull_request'') ''head'') ''sha'')
                                  (field (field op ''pull_request'') ''diff_head_sha''),
                   pr_diffUrl = field (field op ''pull_request'') ''diff_url'',
                   pr_commentsUrl = field (field op ''pull_request'') ''comments_url'' \<rparr>
          else None)"
  by (simp add: task_pullRequest_def js_simps or_else_def)

lemma task_mergeRequest_no_shape:
  "\<not> nullish op \<Longrightarrow> \<not> mr_shape op \<Longrightarrow> task_mergeRequest op = Inr None"
  by (auto simp add: task_mergeRequest_def js_simps mr_shape_def)

lemma task_mergeRequest_shape_throws:
  "\<not> nullish op \<Longrightarrow> mr_shape op \<Longrightarrow> nullish (field op ''project'') \<Longrightarrow>
   \<exists>e. task_mergeRequest op = Inl e"
  by (auto simp add: task_mergeRequest_def js_simps mr_shape_def js_throw_simps)

lemma task_mergeRequest_shape:
  "\<not> nullish op \<Longrightarrow> mr_shape op \<Longrightarrow> \<not> nullish (field op ''project'') \<Longrightarrow>
   \<exists>mr. task_mergeRequest op = Inr (Some mr) \<and> mr_iid mr = field (field op ''object_attributes'') ''iid''"
  by (auto simp add: task_mergeRequest_def js_simps mr_shape_def)

lemma js_or_Inr_Inr: "js_or (Inr a) (Inr b) = Inr (or_else a b)"
  by (simp add: js_or_def js_bind_def or_else_def)

lemma normalize_Inr:
  assumes "\<not> nullish (m_originalPayload b)"
    and "task_mergeRequest (m_originalPayload b) = Inr mr"
  shows "\<exists>t. normalize b = Inr t \<and> mergeRequest t = mr
     \<and> pullRequest t = (if truthy (field (m_originalPayload b) ''pull_request'') then
            Some \<lparr> pr_id = field (field (m_originalPayload b) ''pull_request'') ''id'',
                   pr_number = field (field (m_originalPayload b) ''pull_request'') ''number'',
                   pr_headSha = or_else (field (field (field (m_originalPayload b) ''pull_request'') ''head'') ''sha'')
                                  (field (field (m_originalPayload b) ''pull_request'') ''diff_head_sha''),
                   pr_diffUrl = field (field (m_originalPayload b) ''pull_request'') ''diff_url'',
                   pr_commentsUrl = field (field (m_originalPayload b) ''pull_request'') ''comments_url'' \<rparr>
          else None)
     \<and> source t = m_source b \<and> eventId t = m_eventId b"
  using assms
  by (simp add: normalize_def Let_def dot_Inr qdot_Inr js_or_Inr_Inr js_bind_Inr task_pullRequest_eq
      split del: if_split)

lemma normalize_Inl:
  assumes "task_mergeRequest (m_originalPayload b) = Inl e"
  shows "\<exists>e'. normalize b = Inl e'"
proof (cases "nullish (m_originalPayload b)")
  case True then show ?thesis by (rule normalize_nullish)
next
  case False
  with assms show ?thesis
    by (simp add: normalize_def Let_def js_simps task_pullRequest_eq js_throw_simps)
qed

lemma normalize_populates:
  assumes "normalize b = Inr t"
  shows "(pullRequest t \<noteq> None) = truthy (field (m_originalPayload b) ''pull_request'')"
    and "(mergeRequest t \<noteq> None) = mr_shape (m_originalPayload b)"
    and "source t = m_source b" and "eventId t = m_eventId b"
proof -
  from assms normalize_nullish [of b] have nn: "\<not> nullish (m_originalPayload b)" by auto
  obtain mr where mr: "task_mergeRequest (m_originalPayload b) = Inr mr"
    using assms normalize_Inl [of b] by (cases "task_mergeRequest (m_originalPayload b)") auto
  from normalize_Inr [OF nn mr] assms
  have t: "mergeRequest t = mr"
    "pullRequest t = (if truthy (field (m_originalPayload b) ''pull_request'') then
            Some \<lparr> pr_id = field (field (m_originalPayload b) ''pull_request'') ''id'',
                   pr_number = field (field (m_originalPayload b) ''pull_request'') ''number'',
                   pr_headSha = or_else (field (field (field (m_originalPayload b) ''pull_request'') ''head'') ''sha'')
                                  (field (field (m_originalPayload b) ''pull_request'') ''diff_head_sha''),
                   pr_diffUrl = field (field (m_originalPayload b) ''pull_request'') ''diff_url'',
                   pr_commentsUrl = field (field (m_originalPayload b) ''pull_request'') ''comments_url'' \<rparr>
          else None)"
    "source t = m_source b" "eventId t = m_eventId b"
    by auto
  from t(2) show "(pullRequest t \<noteq> None) = truthy (field (m_originalPayload b) ''pull_request'')"
    by simp
  show "(mergeRequest t \<noteq> None) = mr_shape (m_originalPayload b)"
  proof (cases "mr_shape (m_originalPayload b)")
    case False
    with task_mergeRequest_no_shape [OF nn] mr t(1) show ?thesis by simp
  next
    case True
    show ?thesis
    proof (cases "nullish (field (m_originalPayload b) ''project'')")
      case True
      with task_mergeRequest_shape_throws [OF nn \<open>mr_shape (m_originalPayload b)\<close>] mr
      show ?thesis by auto
    next
      case False
      with task_mergeRequest_shape [OF nn \<open>mr_shape (m_originalPayload b)\<close>] mr t(1) True
      show ?thesis by auto
    qed
  qed
  from t(3,4) show "source t = m_source b" "eventId t = m_eventId b" by auto
qed



lemma normalize_source_irrelevant:
  "normalize (b \<lparr> m_source := s \<rparr>) = (case normalize b of Inl e \<Rightarrow> Inl e | Inr t \<Rightarrow> Inr (t \<lparr> source := s \<rparr>))"
  by (simp add: normalize_def Let_def js_bind_def split: sum.splits)

lemma normalize_nullish_eq:
  "nullish (m_originalPayload b) \<Longrightarrow>
   normalize b = Inl (TypeError ''Cannot read properties of undefined or null (reading repository)'')"
  by (simp add: normalize_def Let_def js_throw_simps)

lemma task_mergeRequest_throws_TypeError:
  "\<not> nullish op \<Longrightarrow> task_mergeRequest op = Inl e \<Longrightarrow>
   e = TypeError ''Cannot read properties of undefined or null (reading id)''"
proof -
  assume nn: "\<not> nullish op" and e: "task_mergeRequest op = Inl e"
  from e task_mergeRequest_no_shape [OF nn] have sh: "mr_shape op" by auto
  from e task_mergeRequest_shape [OF nn sh] have pn: "nullish (field op ''project'')" by auto
  from nn sh pn have "task_mergeRequest op =
      Inl (TypeError ''Cannot read properties of undefined or null (reading id)'')"
    by (auto simp add: task_mergeRequest_def js_simps mr_shape_def js_throw_simps)
  with e show ?thesis by simp
qed

lemma normalize_mr_throw:
  "\<not> nullish (m_originalPayload b) \<Longrightarrow> task_mergeRequest (m_originalPayload b) = Inl e \<Longrightarrow>
   normalize b = Inl e"
  by (simp add: normalize_def Let_def dot_Inr qdot_Inr js_or_Inr_Inr js_bind_Inr task_pullRequest_eq
      js_throw_simps split del: if_split)

lemma normalize_throws_TypeError: "normalize b = Inl e \<Longrightarrow> \<exists>m. e = TypeError m"
proof (cases "nullish (m_originalPayload b)")
  case True
  assume "normalize b = Inl e"
  with normalize_nullish_eq [OF True] show ?thesis by simp
next
  case False
  assume e: "normalize b = Inl e"
  show ?thesis
  proof (cases "task_mergeRequest (m_originalPayload b)")
    case (Inl e')
    with normalize_mr_throw [OF False Inl] e task_mergeRequest_throws_TypeError [OF False Inl]
    show ?thesis by simp
  next
    case (Inr mr)
    with normalize_Inr [OF False Inr] e show ?thesis by auto
  qed
qed

section \<open>Properties of the publisher and of the queue consumer\<close>

text \<open>The loop of the publisher posts the comments before the first one that is \<^verbatim>\<open>null\<close>, in
  order, and throws there; it comes to its end exactly when no comment is \<^verbatim>\<open>null\<close>.\<close>

lemma post_each_prefix:
  "map fst (fst (post_each net rf cs)) = map rf (takeWhile (\<lambda>c. \<not> nullish c) cs)"
  by (induction cs) (auto split: prod.splits)

lemma post_each_aborts:
  "(snd (post_each net rf cs) \<noteq> None) = (\<exists>c \<in> set cs. nullish c)"
  by (induction cs) (auto split: prod.splits)


lemma post_each_null_example:
  "post_each net rf [JObj [(''comment'', JStr ''first'')], JNull, JObj [(''comment'', JStr ''third'')]]
     = ([(rf (JObj [(''comment'', JStr ''first'')]),
          (case net (rf (JObj [(''comment'', JStr ''first'')])) of
             PostResponse st errorText \<Rightarrow>
               if response_ok st then PostedOk else PostFailed st (take 100 errorText)
           | PostNetworkError e' \<Rightarrow> PostThrew (message e')))],
        Some (TypeError ''Cannot read properties of undefined or null (reading filePath)''))"
  by simp



lemma Ack_notin_as_posts: "Ack \<notin> set (as_posts posts)"
  by (auto simp: as_posts_def)








lemma plr_ids:
  "taskId (processLLMResponse n r t) = eventId t"
  "o_repository (processLLMResponse n r t) = fullName (repository t)"
  "timestamp (processLLMResponse n r t) = n"
  by (simp_all add: processLLMResponse_def)

lemma publish_and_store_cases:
  obtains
    (publisher_throws) posts e where
      "publish_and_store sv env t outcome =
         \<lparr> currentTask = Some t, reviewOutcome = Some outcome, done_effects = as_posts posts,
           thrown = Some e \<rparr>"
  | (put_throws) posts e where
      "publish_and_store sv env t outcome =
         \<lparr> currentTask = Some t, reviewOutcome = Some outcome,
           done_effects = as_posts posts
             @ [OutcomePut (reviewId t) outcome (status outcome, timestamp outcome)],
           thrown = Some e \<rparr>"
  | (completes) posts where
      "publish_and_store sv env t outcome =
         \<lparr> currentTask = Some t, reviewOutcome = Some outcome,
           done_effects = as_posts posts
             @ [OutcomePut (reviewId t) outcome (status outcome, timestamp outcome), Ack],
           thrown = None \<rparr>"
proof (cases "if status outcome = completed \<and> has_comments sv outcome
            then postCommentsToVCS (vcs_net sv) t (o_comments outcome) env
            else ([], None)")
  case (Pair posts r)
  show ?thesis
  proof (cases r)
    case (Some e)
    with Pair have "publish_and_store sv env t outcome =
      \<lparr> currentTask = Some t, reviewOutcome = Some outcome, done_effects = as_posts posts,
        thrown = Some e \<rparr>"
      unfolding publish_and_store_def by (simp only: prod.case option.case)
    then show ?thesis by (rule publisher_throws)
  next
    case None
    show ?thesis
    proof (cases "REVIEW_RESULTS_KV_put sv (reviewId t) outcome")
      case n: None
      with Pair None have "publish_and_store sv env t outcome =
        \<lparr> currentTask = Some t, reviewOutcome = Some outcome,
          done_effects = as_posts posts
            @ [OutcomePut (reviewId t) outcome (status outcome, timestamp outcome), Ack],
          thrown = None \<rparr>"
        unfolding publish_and_store_def by (simp only: prod.case option.case)
      then show ?thesis by (rule completes)
    next
      case (Some e)
      with Pair None have "publish_and_store sv env t outcome =
        \<lparr> currentTask = Some t, reviewOutcome = Some outcome,
          done_effects = as_posts posts
            @ [OutcomePut (reviewId t) outcome (status outcome, timestamp outcome)],
          thrown = Some e \<rparr>"
        unfolding publish_and_store_def by (simp only: prod.case option.case)
      then show ?thesis by (rule put_throws)
    qed
  qed
qed

lemma publish_and_store_shape:
  assumes "taskId outcome = eventId t" "o_repository outcome = fullName (repository t)"
  shows "run_shape t (publish_and_store sv env t outcome)"
proof (cases rule: publish_and_store_cases [of sv env t outcome])
  case (publisher_throws posts e)
  with assms show ?thesis unfolding run_shape_def by (simp del: append.simps) blast
next
  case (put_throws posts e)
  with assms show ?thesis unfolding run_shape_def by (simp del: append.simps) blast
next
  case (completes posts)
  with assms show ?thesis unfolding run_shape_def by (simp del: append.simps) blast
qed

lemma as_posts_Nil: "as_posts [] = []"
  by (simp add: as_posts_def)

lemma try_block_shape:
  assumes "normalize b = Inr t"
  shows "run_shape t (try_block sv env b)"
proof (cases "callLLM_result sv t")
  case (Inl e)
  with assms have "try_block sv env b =
      \<lparr> currentTask = Some t, reviewOutcome = None, done_effects = as_posts [], thrown = Some e \<rparr>"
    by (simp add: try_block_def as_posts_Nil)
  then show ?thesis unfolding run_shape_def by (simp del: append.simps) blast
next
  case (Inr r)
  show ?thesis
  proof (cases "isRetryable r = Some True \<and> \<not> success r")
    case True
    with assms Inr have "try_block sv env b =
      \<lparr> currentTask = Some t,
        reviewOutcome = Some (processLLMResponse (now_iso sv) r t),
        done_effects = as_posts [],
        thrown = Some (RetryableWorkerError
          (to_str (or_else (error r) (JStr ''Retryable LLM error from llmResponse'')))) \<rparr>"
      by (simp add: try_block_def as_posts_Nil)
    then show ?thesis unfolding run_shape_def by (simp del: append.simps add: plr_ids) blast
  next
    case False
    with assms Inr have "try_block sv env b =
        publish_and_store sv env t (processLLMResponse (now_iso sv) r t)"
      by (auto simp add: try_block_def)
    then show ?thesis by (simp add: publish_and_store_shape plr_ids)
  qed
qed

text \<open>What a run of the \<^verbatim>\<open>try\<close> block that throws has done: comments posted, and at most the
  put of the \<^verbatim>\<open>try\<close> block; no acknowledgement.\<close>

lemma try_block_thrown_effects:
  assumes "normalize b = Inr t" "thrown (try_block sv env b) = Some err"
  shows "\<exists>posts outcome. done_effects (try_block sv env b) = as_posts posts
           \<or> done_effects (try_block sv env b) = as_posts posts
                @ [OutcomePut (reviewId t) outcome (status outcome, timestamp outcome)]"
  using try_block_shape [OF assms(1), of sv env] assms(2) unfolding run_shape_def by auto

lemma try_block_completed_effects:
  assumes "normalize b = Inr t" "thrown (try_block sv env b) = None"
  shows "\<exists>posts outcome. done_effects (try_block sv env b) = as_posts posts
                @ [OutcomePut (reviewId t) outcome (status outcome, timestamp outcome), Ack]"
  using try_block_shape [OF assms(1), of sv env] assms(2) unfolding run_shape_def by auto

lemma try_block_norm_throws:
  "normalize b = Inl e \<Longrightarrow> try_block sv env b =
     \<lparr> currentTask = None, reviewOutcome = None, done_effects = [], thrown = Some e \<rparr>"
  by (simp add: try_block_def)

text \<open>The outcome the handler amends keeps its identifiers, and the key of the handler's put
  is the function \<open>handlerKey\<close> of the message.\<close>

lemma amend_outcome_ids:
  assumes "amend_outcome outcome err = Inr outcome'"
  shows "taskId outcome' = taskId outcome" "o_repository outcome' = o_repository outcome"
    "timestamp outcome' = timestamp outcome"
  using assms
  by (auto simp: amend_outcome_def Let_def js_bind_def split: sum.splits if_splits)

lemma or_else_undefined: "or_else JUndefined v = v"
  by (simp add: or_else_def)

lemma fallback_outcome_ids:
  assumes "fallback_outcome n b err = Inr outcome"
  shows "taskId outcome = (if m_eventId b \<noteq> [] then m_eventId b else ''unknown_event'')"
    "o_repository outcome =
       or_else (field (field (m_originalPayload b) ''repository'') ''full_name'')
         (or_else (field (field (m_originalPayload b) ''project'') ''path_with_namespace'')
            (JStr ''unknown/repo''))"
proof -
  from assms obtain mr where
    "outcome = \<lparr> taskId = (if m_eventId b \<noteq> [] then m_eventId b else ''unknown_event''),
            status = failed,
            o_repository = or_else (field (field (m_originalPayload b) ''repository'') ''full_name'')
                            (or_else (field (field (m_originalPayload b) ''project'') ''path_with_namespace'')
                                     (JStr ''unknown/repo'')),
            o_pullRequest = fallback_pullRequest (m_originalPayload b),
            o_mergeRequest = mr,
            o_reviewType = or_else (m_reviewType b) (JStr ''general''),
            o_comments = JUndefined, o_summary = JUndefined,
            o_error = JStr (''Critical processing error before task formation: '' @ message err),
            llmRawResponse = None,
            timestamp = n \<rparr>"
    unfolding fallback_outcome_def Let_def js_bind_def by (auto split: sum.splits)
  then show "taskId outcome = (if m_eventId b \<noteq> [] then m_eventId b else ''unknown_event'')"
    "o_repository outcome =
       or_else (field (field (m_originalPayload b) ''repository'') ''full_name'')
         (or_else (field (field (m_originalPayload b) ''project'') ''path_with_namespace'')
            (JStr ''unknown/repo''))"
    by simp_all
qed

lemma handler_key_task:
  assumes "run_shape t a" "handler_outcome n b a err = Inr outcome"
  shows "handler_key b a outcome = handlerReviewId t (m_originalPayload b)"
proof (cases "reviewOutcome a")
  case None
  with assms show ?thesis
    by (auto simp add: run_shape_def handler_outcome_def handler_key_def errorReviewId_def
        handlerReviewId_def)
next
  case (Some outcome0)
  with assms have ids: "taskId outcome0 = eventId t" "o_repository outcome0 = fullName (repository t)"
    "currentTask a = Some t"
    by (simp_all add: run_shape_def)
  from Some assms(2) have "amend_outcome outcome0 err = Inr outcome"
    by (simp add: handler_outcome_def)
  from amend_outcome_ids [OF this] ids show ?thesis
    by (simp add: handler_key_def errorReviewId_def handlerReviewId_def)
qed

lemma handler_key_message:
  assumes "thrown (try_block sv env b) = Some err"
    "handler_outcome n b (try_block sv env b) err = Inr outcome"
  shows "handler_key b (try_block sv env b) outcome = handlerKey b"
proof (cases "normalize b")
  case (Inl e)
  from assms(2) have f: "fallback_outcome n b err = Inr outcome"
    by (simp add: try_block_norm_throws [OF Inl] handler_outcome_def)
  from fallback_outcome_ids [OF f] Inl show ?thesis
    by (simp add: try_block_norm_throws [OF Inl] handler_key_def errorReviewId_def handlerKey_def
        or_else_undefined)
next
  case (Inr t)
  from handler_key_task [OF try_block_shape [OF Inr, of sv env] assms(2)] Inr
  show ?thesis by (simp add: handlerKey_def)
qed

lemma catch_block_Inr:
  assumes "handler_outcome (now_iso sv) b a err = Inr outcome"
  shows "catch_block sv b a err =
     (done_effects a @
        OutcomePut (handler_key b a outcome) outcome (status outcome, timestamp outcome)
        # (if isErrorRetryable err then [] else [Ack]),
      if isErrorRetryable err then Some err else None)"
  using assms by (simp add: catch_block_def Let_def)

lemma catch_block_Inl:
  assumes "handler_outcome (now_iso sv) b a err = Inl e"
  shows "catch_block sv b a err = (done_effects a, Some e)"
  using assms by (simp add: catch_block_def)

lemma process_message_completes:
  "thrown (try_block sv env b) = None \<Longrightarrow>
   process_message sv env b = (done_effects (try_block sv env b), None)"
  by (simp add: process_message_def Let_def)

lemma process_message_throws:
  "thrown (try_block sv env b) = Some err \<Longrightarrow>
   process_message sv env b = catch_block sv b (try_block sv env b) err"
  by (simp add: process_message_def Let_def)

lemma process_message_handled:
  assumes "thrown (try_block sv env b) = Some err"
    "handler_outcome (now_iso sv) b (try_block sv env b) err = Inr outcome"
  shows "process_message sv env b =
     (done_effects (try_block sv env b) @
        OutcomePut (handlerKey b) outcome (status outcome, timestamp outcome)
        # (if isErrorRetryable err then [] else [Ack]),
      if isErrorRetryable err then Some err else None)"
  using catch_block_Inr [OF assms(2)] handler_key_message [OF assms]
  by (simp add: process_message_throws [OF assms(1)])

lemma process_message_handler_throws:
  assumes "thrown (try_block sv env b) = Some err"
    "handler_outcome (now_iso sv) b (try_block sv env b) err = Inl e"
  shows "process_message sv env b = (done_effects (try_block sv env b), Some e)"
  using catch_block_Inl [OF assms(2)] by (simp add: process_message_throws [OF assms(1)])


text \<open>The handler itself throws when the outcome of the \<^verbatim>\<open>try\<close> block carries an \<open>error\<close> from
  the review service that is neither a string nor an array, a number say: no put of the
  handler, no acknowledgement.\<close>

lemma amend_outcome_throws_example:
  "o_error outcome = JNum 5 \<Longrightarrow>
   amend_outcome outcome err = Inl (TypeError ''reviewOutcome.error.includes is not a function'')"
  by (simp add: amend_outcome_def js_bind_def)
text \<open>
  Claim C9, as amended. For every queued task whose normalisation does not throw, the
  \<^verbatim>\<open>ReviewTask\<close> built by the consumer populates \<open>pullRequest\<close> exactly when the payload has
  a truthy \<^verbatim>\<open>pull_request\<close>, and \<open>mergeRequest\<close> exactly when it has a truthy
  \<^verbatim>\<open>object_attributes\<close> and the \<^verbatim>\<open>object_kind\<close> \<^verbatim>\<open>merge_request\<close>: the shape of the payload
  selects the fields, the provider tag plays no part in it, and none, one or both of the
  fields may be populated.
\<close>

theorem normalize_selects_by_payload:
  assumes "normalize b = Inr t"
  shows "(pullRequest t \<noteq> None) = truthy (field (m_originalPayload b) ''pull_request'')
    \<and> (mergeRequest t \<noteq> None) = mr_shape (m_originalPayload b)
    \<and> normalize (b \<lparr> m_source := s \<rparr>) = Inr (t \<lparr> source := s \<rparr>)"
  using normalize_populates(1,2) [OF assms] normalize_source_irrelevant [of s b] assms
  by simp

theorem normalize_selects_by_payload_witness:
  "normalize
      \<lparr> m_source = ''github'', m_eventId = ''gh_delivery_1'',
        m_originalPayload =
          JObj [(''repository'', JObj [(''full_name'', JStr ''o/r'')]),
                (''pull_request'', JObj [(''number'', JNum 123), (''head'', JObj [(''sha'', JStr ''abc'')]),
                    (''comments_url'', JStr ''https://api.github.com/repos/o/r/issues/123/comments'')])],
        m_reviewType = JUndefined, m_filesToReview = JUndefined \<rparr>
    = Inr
      \<lparr> repository = \<lparr> fullName = JStr ''o/r'', repo_id = JNum 0, defaultBranch = JStr ''main'' \<rparr>,
        pullRequest = Some \<lparr> pr_id = JUndefined, pr_number = JNum 123, pr_headSha = JStr ''abc'',
                              pr_diffUrl = JUndefined,
                              pr_commentsUrl = JStr ''https://api.github.com/repos/o/r/issues/123/comments'' \<rparr>,
        mergeRequest = None, source = ''github'', eventId = ''gh_delivery_1'',
        reviewType = JStr ''general'', filesToReview = JArr [] \<rparr>
   \<and> truthy (field (m_originalPayload
      \<lparr> m_source = ''github'', m_eventId = ''gh_delivery_1'',
        m_originalPayload =
          JObj [(''repository'', JObj [(''full_name'', JStr ''o/r'')]),
                (''pull_request'', JObj [(''number'', JNum 123), (''head'', JObj [(''sha'', JStr ''abc'')]),
                    (''comments_url'', JStr ''https://api.github.com/repos/o/r/issues/123/comments'')])],
        m_reviewType = JUndefined, m_filesToReview = JUndefined \<rparr>) ''pull_request'')
   \<and> \<not> mr_shape (m_originalPayload
      \<lparr> m_source = ''github'', m_eventId = ''gh_delivery_1'',
        m_originalPayload =
          JObj [(''repository'', JObj [(''full_name'', JStr ''o/r'')]),
                (''pull_request'', JObj [(''number'', JNum 123), (''head'', JObj [(''sha'', JStr ''abc'')]),
                    (''comments_url'', JStr ''https://api.github.com/repos/o/r/issues/123/comments'')])],
        m_reviewType = JUndefined, m_filesToReview = JUndefined \<rparr>)
   \<and> normalize
      (\<lparr> m_source = ''github'', m_eventId = ''gh_delivery_1'',
        m_originalPayload =
          JObj [(''repository'', JObj [(''full_name'', JStr ''o/r'')]),
                (''pull_request'', JObj [(''number'', JNum 123), (''head'', JObj [(''sha'', JStr ''abc'')]),
                    (''comments_url'', JStr ''https://api.github.com/repos/o/r/issues/123/comments'')])],
        m_reviewType = JUndefined, m_filesToReview = JUndefined \<rparr> \<lparr> m_source := ''gitlab'' \<rparr>)
    = Inr
      (\<lparr> repository = \<lparr> fullName = JStr ''o/r'', repo_id = JNum 0, defaultBranch = JStr ''main'' \<rparr>,
        pullRequest = Some \<lparr> pr_id = JUndefined, pr_number = JNum 123, pr_headSha = JStr ''abc'',
                              pr_diffUrl = JUndefined,
                              pr_commentsUrl = JStr ''https://api.github.com/repos/o/r/issues/123/comments'' \<rparr>,
        mergeRequest = None, source = ''github'', eventId = ''gh_delivery_1'',
        reviewType = JStr ''general'', filesToReview = JArr [] \<rparr> \<lparr> source := ''gitlab'' \<rparr>)"
proof -
  have n: "normalize
      \<lparr> m_source = ''github'', m_eventId = ''gh_delivery_1'',
        m_originalPayload =
          JObj [(''repository'', JObj [(''full_name'', JStr ''o/r'')]),
                (''pull_request'', JObj [(''number'', JNum 123), (''head'', JObj [(''sha'', JStr ''abc'')]),
                    (''comments_url'', JStr ''https://api.github.com/repos/o/r/issues/123/comments'')])],
        m_reviewType = JUndefined, m_filesToReview = JUndefined \<rparr>
    = Inr
      \<lparr> repository = \<lparr> fullName = JStr ''o/r'', repo_id = JNum 0, defaultBranch = JStr ''main'' \<rparr>,
        pullRequest = Some \<lparr> pr_id = JUndefined, pr_number = JNum 123, pr_headSha = JStr ''abc'',
                              pr_diffUrl = JUndefined,
                              pr_commentsUrl = JStr ''https://api.github.com/repos/o/r/issues/123/comments'' \<rparr>,
        mergeRequest = None, source = ''github'', eventId = ''gh_delivery_1'',
        reviewType = JStr ''general'', filesToReview = JArr [] \<rparr>"
    by (simp add: normalize_def task_pullRequest_def task_mergeRequest_def js_bind_def dot_def qdot_def
        js_or_def js_and_def strict_eq_str_def get_prop_def Let_def)
  from normalize_selects_by_payload [OF n, of "''gitlab''"] n show ?thesis
    by simp
qed

text \<open>
  Claim C9 as stated fails: a payload without either shape marker gives a task with neither
  field, and a message tagged with provider A whose payload has the merge-request shape
  gives a task with \<open>mergeRequest\<close>.
\<close>

theorem normalize_selects_by_payload_counterexample:
  "normalize
      \<lparr> m_source = ''github'', m_eventId = ''gh_delivery_1'',
        m_originalPayload = JObj [(''repository'', JObj [(''full_name'', JStr ''o/r'')])],
        m_reviewType = JUndefined, m_filesToReview = JUndefined \<rparr>
    = Inr
      \<lparr> repository = \<lparr> fullName = JStr ''o/r'', repo_id = JNum 0, defaultBranch = JStr ''main'' \<rparr>,
        pullRequest = None, mergeRequest = None, source = ''github'', eventId = ''gh_delivery_1'',
        reviewType = JStr ''general'', filesToReview = JArr [] \<rparr>
   \<and> normalize
      \<lparr> m_source = ''github'', m_eventId = ''gh_delivery_2'',
        m_originalPayload =
          JObj [(''object_kind'', JStr ''merge_request''),
                (''project'', JObj [(''id'', JNum 789), (''web_url'', JStr ''https://gitlab.com/g/p'')]),
                (''object_attributes'', JObj [(''iid'', JNum 42)])],
        m_reviewType = JUndefined, m_filesToReview = JUndefined \<rparr>
    = Inr
      \<lparr> repository = \<lparr> fullName = JStr ''unknown/repo'', repo_id = JNum 789, defaultBranch = JStr ''main'' \<rparr>,
        pullRequest = None,
        mergeRequest = Some \<lparr> mr_id = JUndefined, mr_iid = JNum 42, mr_projectId = JNum 789,
           mr_headSha = JUndefined,
           mr_diffUrl = ''https://gitlab.com/g/p/-/merge_requests/42/diffs.json'',
           mr_notesUrl = ''https://gitlab.com/api/v4/projects/789/merge_requests/42/notes'' \<rparr>,
        source = ''github'', eventId = ''gh_delivery_2'',
        reviewType = JStr ''general'', filesToReview = JArr [] \<rparr>"
  by (simp add: normalize_def task_pullRequest_def task_mergeRequest_def js_bind_def dot_def qdot_def
        js_or_def js_and_def strict_eq_str_def get_prop_def Let_def
        show_int_def show_nat.simps digit_char_def)

text \<open>What holds of the acknowledgement for every message: it is acknowledged exactly once
  when no error leaves the loop body and not at all when one does, and a retryable error of
  the \<^verbatim>\<open>try\<close> block is propagated after the handler's put, unless the handler itself
  throws.\<close>

lemma count_Ack_as_posts: "count_list (as_posts posts) Ack = 0"
  by (induction posts) (auto simp: as_posts_def)

lemma process_message_norm_throws:
  assumes "normalize b = Inl e"
  shows "process_message sv env b =
     (case fallback_outcome (now_iso sv) b e of
        Inl e' \<Rightarrow> ([], Some e')
      | Inr outcome \<Rightarrow>
          ([OutcomePut (errorReviewId outcome JUndefined JUndefined (m_originalPayload b)) outcome
              (status outcome, timestamp outcome), Ack], None))"
proof -
  from normalize_throws_TypeError [OF assms] have "\<not> isErrorRetryable e" by auto
  then show ?thesis
    by (simp add: process_message_def Let_def try_block_norm_throws [OF assms] catch_block_def
        handler_outcome_def handler_key_def split: sum.splits)
qed

lemma try_block_thrown_no_Ack:
  assumes "thrown (try_block sv env b) = Some err"
  shows "Ack \<notin> set (done_effects (try_block sv env b))"
proof (cases "normalize b")
  case (Inl e)
  then show ?thesis by (simp add: try_block_norm_throws)
next
  case (Inr t)
  from try_block_thrown_effects [OF Inr assms] show ?thesis
    by (auto simp: Ack_notin_as_posts)
qed

lemma try_block_thrown_count_Ack:
  assumes "thrown (try_block sv env b) = Some err"
  shows "count_list (done_effects (try_block sv env b)) Ack = 0"
  using try_block_thrown_no_Ack [OF assms] by (simp add: count_list_0_iff)

lemma ack_xor_propagate:
  "(snd (process_message sv env b) = None \<longrightarrow> count_list (fst (process_message sv env b)) Ack = 1)
   \<and> (snd (process_message sv env b) \<noteq> None \<longrightarrow> Ack \<notin> set (fst (process_message sv env b)))"
proof (cases "thrown (try_block sv env b)")
  case None
  have "\<exists>t. normalize b = Inr t"
  proof (cases "normalize b")
    case (Inl e)
    with None show ?thesis by (simp add: try_block_norm_throws)
  next
    case (Inr t)
    then show ?thesis by blast
  qed
  then obtain t where "normalize b = Inr t" by blast
  from try_block_completed_effects [OF this None]
  obtain posts outcome where "done_effects (try_block sv env b) = as_posts posts
             @ [OutcomePut (reviewId t) outcome (status outcome, timestamp outcome), Ack]"
    by blast
  with None show ?thesis
    by (simp add: process_message_completes count_Ack_as_posts)
next
  case (Some err)
  note na = try_block_thrown_no_Ack [OF Some] and nc = try_block_thrown_count_Ack [OF Some]
  show ?thesis
  proof (cases "handler_outcome (now_iso sv) b (try_block sv env b) err")
    case (Inl e)
    from process_message_handler_throws [OF Some Inl] na show ?thesis by simp
  next
    case (Inr outcome)
    from process_message_handled [OF Some Inr] na nc show ?thesis by simp
  qed
qed

lemma retryable_propagates:
  assumes "thrown (try_block sv env b) = Some err" "isErrorRetryable err"
    "handler_outcome (now_iso sv) b (try_block sv env b) err = Inr outcome"
  shows "process_message sv env b =
            (done_effects (try_block sv env b)
               @ [OutcomePut (handlerKey b) outcome (status outcome, timestamp outcome)], Some err)
          \<and> Ack \<notin> set (done_effects (try_block sv env b))"
  using process_message_handled [OF assms(1) assms(3)] assms(2) try_block_thrown_no_Ack [OF assms(1)]
  by simp


text \<open>An error leaves the loop body only if it is a retryable error of the \<^verbatim>\<open>try\<close> block, or if
  the handler throws itself while it builds or amends its outcome.\<close>

lemma propagated_error_cases:
  assumes "snd (process_message sv env b) = Some e"
  shows "(isErrorRetryable e \<and> thrown (try_block sv env b) = Some e)
       \<or> (\<exists>err. thrown (try_block sv env b) = Some err
              \<and> handler_outcome (now_iso sv) b (try_block sv env b) err = Inl e)"
proof (cases "thrown (try_block sv env b)")
  case None
  with assms show ?thesis by (simp add: process_message_completes)
next
  case (Some err)
  show ?thesis
  proof (cases "handler_outcome (now_iso sv) b (try_block sv env b) err")
    case (Inl e')
    from process_message_handler_throws [OF Some Inl] assms Some Inl show ?thesis by simp
  next
    case (Inr outcome)
    from process_message_handled [OF Some Inr] assms Some show ?thesis
      by (auto split: if_splits)
  qed
qed


text \<open>An error that leaves the loop body leaves \<open>queue\<close>: the messages after it in the batch
  are not handled.\<close>

lemma queue_stops_at_error:
  "snd (process_message sv env b) = Some e \<Longrightarrow>
   queue env ((sv, b) # rest) = ([fst (process_message sv env b)], Some e)"
  by (cases "process_message sv env b") simp

text \<open>
  Claim C6 says that every message whose processing does not raise a retryable error is
  acknowledged exactly once. A payload with the merge-request shape and no \<^verbatim>\<open>project\<close> makes
  the normalisation throw a \<^verbatim>\<open>TypeError\<close>, which is not retryable; the exception handler
  then builds its outcome from the raw payload, reads \<^verbatim>\<open>originalPayload.project.id\<close> without
  a guard and throws again: nothing is stored, the message is not acknowledged, and the
  error leaves \<open>queue\<close>.
\<close>

theorem queue_handler_throws:
  "process_message sv env
     \<lparr> m_source = ''gitlab'', m_eventId = ''gl_delivery_d7'',
       m_originalPayload = JObj [(''object_kind'', JStr ''merge_request''),
                                 (''object_attributes'', JObj [(''iid'', JNum 1)])],
       m_reviewType = JUndefined, m_filesToReview = JUndefined \<rparr>
   = ([], Some (TypeError ''Cannot read properties of undefined or null (reading id)''))"
  by (simp add: process_message_def try_block_def catch_block_def handler_outcome_def
      fallback_outcome_def fallback_mergeRequest_def
      normalize_def task_pullRequest_def task_mergeRequest_def js_bind_def dot_def qdot_def
        js_or_def js_and_def strict_eq_str_def get_prop_def Let_def)





text \<open>A comment that is \<^verbatim>\<open>null\<close> ends the loop of the publisher with a \<^verbatim>\<open>TypeError\<close>: the
  comments before it are posted, those after it are not attempted.\<close>

lemma postComments_null_aborts:
  assumes "supported t" "\<exists>c \<in> set cs. nullish c"
  shows "\<exists>posts e. postCommentsToVCS net t (JArr cs) env = (posts, Some e) \<and>
      map fst posts = map (requestFor env t) (takeWhile (\<lambda>c. \<not> nullish c) cs)"
proof -
  from assms(2) have ne: "cs \<noteq> []" by auto
  with assms(1) have eq: "postCommentsToVCS net t (JArr cs) env = post_each net (requestFor env t) cs"
    by (auto simp: supported_def postCommentsToVCS_def requestFor_def post_all_def)
  from assms(2) post_each_aborts [of net "requestFor env t" cs]
  obtain e where "snd (post_each net (requestFor env t) cs) = Some e" by auto
  with post_each_prefix [of net "requestFor env t" cs] eq show ?thesis
    by (cases "post_each net (requestFor env t) cs") simp
qed






section \<open>Properties of processLLMResponse\<close>

text \<open>
  Claim C10. For an invocation result with \<open>success\<close> false, the outcome record built by
  \<open>processLLMResponse\<close> has status \<open>error_calling_llm\<close> exactly when the \<open>isRetryable\<close>
  flag is the boolean false, and status \<open>failed\<close> when the flag is true or absent; a result
  with \<open>success\<close> true always gives status \<open>completed\<close>.
\<close>

theorem processLLMResponse_status:
  "(\<not> success r \<longrightarrow>
      ((status (processLLMResponse now r t) = error_calling_llm) = (isRetryable r = Some False)) \<and>
      (isRetryable r = Some True \<or> isRetryable r = None \<longrightarrow>
         status (processLLMResponse now r t) = failed)) \<and>
   (success r \<longrightarrow> status (processLLMResponse now r t) = completed)"
  by (auto simp: processLLMResponse_def)

theorem processLLMResponse_status_witness:
  "status (processLLMResponse ''2026-01-01T00:00:00.000Z''
      \<lparr> success = False, comments = JUndefined, summary = JUndefined, error = JStr ''LLM API error 400: bad'',
        rawResponse = Some (JStr ''bad''), isRetryable = Some False \<rparr>
      \<lparr> repository = \<lparr> fullName = JStr ''o/r'', repo_id = JNum 1, defaultBranch = JStr ''main'' \<rparr>,
        pullRequest = None, mergeRequest = None, source = ''github'', eventId = ''e1'',
        reviewType = JStr ''general'', filesToReview = JArr [] \<rparr>) = error_calling_llm
   \<and> status (processLLMResponse ''2026-01-01T00:00:00.000Z''
      \<lparr> success = False, comments = JUndefined, summary = JUndefined, error = JUndefined,
        rawResponse = None, isRetryable = None \<rparr>
      \<lparr> repository = \<lparr> fullName = JStr ''o/r'', repo_id = JNum 1, defaultBranch = JStr ''main'' \<rparr>,
        pullRequest = None, mergeRequest = None, source = ''github'', eventId = ''e1'',
        reviewType = JStr ''general'', filesToReview = JArr [] \<rparr>) = failed
   \<and> status (processLLMResponse ''2026-01-01T00:00:00.000Z''
      \<lparr> success = True, comments = JArr [], summary = JStr ''ok'', error = JUndefined,
        rawResponse = None, isRetryable = Some False \<rparr>
      \<lparr> repository = \<lparr> fullName = JStr ''o/r'', repo_id = JNum 1, defaultBranch = JStr ''main'' \<rparr>,
        pullRequest = None, mergeRequest = None, source = ''github'', eventId = ''e1'',
        reviewType = JStr ''general'', filesToReview = JArr [] \<rparr>) = completed"
  using
    processLLMResponse_status [of
      "\<lparr> success = False, comments = JUndefined, summary = JUndefined, error = JStr ''LLM API error 400: bad'',
        rawResponse = Some (JStr ''bad''), isRetryable = Some False \<rparr>"
      "''2026-01-01T00:00:00.000Z''"
      "\<lparr> repository = \<lparr> fullName = JStr ''o/r'', repo_id = JNum 1, defaultBranch = JStr ''main'' \<rparr>,
        pullRequest = None, mergeRequest = None, source = ''github'', eventId = ''e1'',
        reviewType = JStr ''general'', filesToReview = JArr [] \<rparr>"]
    processLLMResponse_status [of
      "\<lparr> success = False, comments = JUndefined, summary = JUndefined, error = JUndefined,
        rawResponse = None, isRetryable = None \<rparr>"
      "''2026-01-01T00:00:00.000Z''"
      "\<lparr> repository = \<lparr> fullName = JStr ''o/r'', repo_id = JNum 1, defaultBranch = JStr ''main'' \<rparr>,
        pullRequest = None, mergeRequest = None, source = ''github'', eventId = ''e1'',
        reviewType = JStr ''general'', filesToReview = JArr [] \<rparr>"]
    processLLMResponse_status [of
      "\<lparr> success = True, comments = JArr [], summary = JStr ''ok'', error = JUndefined,
        rawResponse = None, isRetryable = Some False \<rparr>"
      "''2026-01-01T00:00:00.000Z''"
      "\<lparr> repository = \<lparr> fullName = JStr ''o/r'', repo_id = JNum 1, defaultBranch = JStr ''main'' \<rparr>,
        pullRequest = None, mergeRequest = None, source = ''github'', eventId = ''e1'',
        reviewType = JStr ''general'', filesToReview = JArr [] \<rparr>"]
  by simp

end
